theory Spec2Isabelle
  imports Complex_Main
begin

section \<open>JavaScript numbers\<close>

text \<open>
  A value of the TypeScript type \<open>number\<close> is modelled as an exact real, or as one of
  \<open>NaN\<close>, \<open>Infinity\<close> and \<open>-Infinity\<close>. Decimal literals denote their exact value:
  rounding to double precision, overflow to infinity and the sign of zero are not
  modelled (a division by zero takes the sign of the dividend).
\<close>

datatype number = NaN | Num real | PosInfinity | NegInfinity

fun isNaN :: "number \<Rightarrow> bool" where
  "isNaN NaN = True"
| "isNaN _ = False"

fun isFinite :: "number \<Rightarrow> bool" where
  "isFinite (Num a) = True"
| "isFinite _ = False"

text \<open>\<open>a < b\<close>; every comparison with \<open>NaN\<close> is false.\<close>

fun num_lt :: "number \<Rightarrow> number \<Rightarrow> bool" where
  "num_lt (Num a) (Num b) = (a < b)"
| "num_lt (Num a) PosInfinity = True"
| "num_lt NegInfinity (Num b) = True"
| "num_lt NegInfinity PosInfinity = True"
| "num_lt _ _ = False"

text \<open>\<open>a > b\<close>\<close>

definition num_gt :: "number \<Rightarrow> number \<Rightarrow> bool" where
  "num_gt a b = num_lt b a"

text \<open>\<open>a >= b\<close>\<close>

fun num_ge :: "number \<Rightarrow> number \<Rightarrow> bool" where
  "num_ge NaN _ = False"
| "num_ge _ NaN = False"
| "num_ge a b = (\<not> num_lt a b)"

fun num_neg :: "number \<Rightarrow> number" where
  "num_neg NaN = NaN"
| "num_neg (Num a) = Num (- a)"
| "num_neg PosInfinity = NegInfinity"
| "num_neg NegInfinity = PosInfinity"

text \<open>\<open>a + b\<close>\<close>

fun num_add :: "number \<Rightarrow> number \<Rightarrow> number" where
  "num_add NaN _ = NaN"
| "num_add _ NaN = NaN"
| "num_add (Num a) (Num b) = Num (a + b)"
| "num_add PosInfinity NegInfinity = NaN"
| "num_add NegInfinity PosInfinity = NaN"
| "num_add PosInfinity _ = PosInfinity"
| "num_add _ PosInfinity = PosInfinity"
| "num_add NegInfinity _ = NegInfinity"
| "num_add _ NegInfinity = NegInfinity"

text \<open>\<open>a - b\<close>\<close>

definition num_sub :: "number \<Rightarrow> number \<Rightarrow> number" where
  "num_sub a b = num_add a (num_neg b)"

text \<open>An infinity with the sign of \<open>a\<close>, for \<open>a\<close> other than zero.\<close>

definition signed_infinity :: "real \<Rightarrow> number" where
  "signed_infinity a = (if 0 < a then PosInfinity else NegInfinity)"

text \<open>\<open>a * b\<close>\<close>

fun num_mul :: "number \<Rightarrow> number \<Rightarrow> number" where
  "num_mul NaN _ = NaN"
| "num_mul _ NaN = NaN"
| "num_mul (Num a) (Num b) = Num (a * b)"
| "num_mul (Num a) PosInfinity = (if a = 0 then NaN else signed_infinity a)"
| "num_mul (Num a) NegInfinity = (if a = 0 then NaN else signed_infinity (- a))"
| "num_mul PosInfinity (Num b) = (if b = 0 then NaN else signed_infinity b)"
| "num_mul NegInfinity (Num b) = (if b = 0 then NaN else signed_infinity (- b))"
| "num_mul PosInfinity PosInfinity = PosInfinity"
| "num_mul PosInfinity NegInfinity = NegInfinity"
| "num_mul NegInfinity PosInfinity = NegInfinity"
| "num_mul NegInfinity NegInfinity = PosInfinity"

text \<open>\<open>a / b\<close>\<close>

fun num_div :: "number \<Rightarrow> number \<Rightarrow> number" where
  "num_div NaN _ = NaN"
| "num_div _ NaN = NaN"
| "num_div (Num a) (Num b) =
     (if b = 0 then (if a = 0 then NaN else signed_infinity a) else Num (a / b))"
| "num_div (Num a) _ = Num 0"
| "num_div PosInfinity (Num b) = (if 0 \<le> b then PosInfinity else NegInfinity)"
| "num_div NegInfinity (Num b) = (if 0 \<le> b then NegInfinity else PosInfinity)"
| "num_div _ _ = NaN"

fun Math_abs :: "number \<Rightarrow> number" where
  "Math_abs NaN = NaN"
| "Math_abs (Num a) = Num \<bar>a\<bar>"
| "Math_abs _ = PosInfinity"

fun Math_sqrt :: "number \<Rightarrow> number" where
  "Math_sqrt (Num a) = (if a < 0 then NaN else Num (sqrt a))"
| "Math_sqrt PosInfinity = PosInfinity"
| "Math_sqrt _ = NaN"


section \<open>JavaScript strings\<close>

text \<open>
  A string is a list of 8-bit characters; characters beyond Latin-1 are not modelled.
  \<open>isWhiteSpace\<close> holds of the characters that \<open>trim\<close>, \<open>parseInt\<close> and
  \<open>parseFloat\<close> skip: tab, line feed, vertical tab, form feed, carriage return, space
  and no-break space.
\<close>

definition isWhiteSpace :: "char \<Rightarrow> bool" where
  "isWhiteSpace c =
     (c \<in> set [CHR 0x09, CHR 0x0A, CHR 0x0B, CHR 0x0C, CHR 0x0D, CHR '' '', CHR 0xA0])"

definition trim :: "string \<Rightarrow> string" where
  "trim s = rev (dropWhile isWhiteSpace (rev (dropWhile isWhiteSpace s)))"

text \<open>\<open>s.substring(a, b)\<close>: the indices are clamped to the length, and swapped when \<open>a > b\<close>.\<close>

definition substring :: "nat \<Rightarrow> nat \<Rightarrow> string \<Rightarrow> string" where
  "substring a b s = take (max a b - min a b) (drop (min a b) s)"

text \<open>\<open>s.charAt(i)\<close>: the empty string when \<open>i\<close> is out of range.\<close>

definition charAt :: "nat \<Rightarrow> string \<Rightarrow> string" where
  "charAt i s = take 1 (drop i s)"

text \<open>\<open>s.replace(a, b)\<close> for one-character strings: only the first occurrence is replaced.\<close>

fun replaceFirst :: "char \<Rightarrow> char \<Rightarrow> string \<Rightarrow> string" where
  "replaceFirst a b [] = []"
| "replaceFirst a b (c # cs) = (if c = a then b # cs else c # replaceFirst a b cs)"

definition isDigit :: "char \<Rightarrow> bool" where
  "isDigit c = (c \<in> set ''0123456789'')"

definition digitValue :: "char \<Rightarrow> nat" where
  "digitValue c = of_char c - 48"

definition decimalValue :: "string \<Rightarrow> nat" where
  "decimalValue ds = foldl (\<lambda>n c. 10 * n + digitValue c) 0 ds"

definition isHexDigit :: "char \<Rightarrow> bool" where
  "isHexDigit c = (c \<in> set ''0123456789abcdefABCDEF'')"

definition hexDigitValue :: "char \<Rightarrow> nat" where
  "hexDigitValue c =
     (if isDigit c then of_char c - 48
      else if c \<in> set ''abcdef'' then of_char c - 87
      else of_char c - 55)"

definition hexValue :: "string \<Rightarrow> nat" where
  "hexValue ds = foldl (\<lambda>n c. 16 * n + hexDigitValue c) 0 ds"

text \<open>
  \<open>parseInt(s)\<close> with no radix: leading white space, an optional sign, an optional
  \<open>0x\<close> prefix, then the longest run of digits; \<open>NaN\<close> when that run is empty.
\<close>

definition parseInt :: "string \<Rightarrow> number" where
  "parseInt s =
     (let S = dropWhile isWhiteSpace s;
          negative = (take 1 S = ''-'');
          S1 = (if take 1 S = ''-'' \<or> take 1 S = ''+'' then drop 1 S else S);
          hex = (take 2 S1 = ''0x'' \<or> take 2 S1 = ''0X'');
          Z = (if hex then takeWhile isHexDigit (drop 2 S1) else takeWhile isDigit S1);
          n = (if hex then hexValue Z else decimalValue Z)
      in if Z = [] then NaN else Num (if negative then - real n else real n))"

text \<open>The exponent part at the head of \<open>s\<close>, 0 when there is none.\<close>

definition exponentPart :: "string \<Rightarrow> int" where
  "exponentPart s =
     (if take 1 s = ''e'' \<or> take 1 s = ''E'' then
        (let t = drop 1 s;
             negative = (take 1 t = ''-'');
             t1 = (if take 1 t = ''-'' \<or> take 1 t = ''+'' then drop 1 t else t);
             ds = takeWhile isDigit t1
         in if ds = [] then 0
            else if negative then - int (decimalValue ds) else int (decimalValue ds))
      else 0)"

text \<open>
  \<open>parseFloat(s)\<close>: leading white space, an optional sign, then \<open>Infinity\<close> or the
  longest prefix that is a decimal literal (digits, an optional fraction, an optional
  exponent); \<open>NaN\<close> when there is no digit before the exponent.
\<close>

definition parseFloat :: "string \<Rightarrow> number" where
  "parseFloat s =
     (let S = dropWhile isWhiteSpace s;
          negative = (take 1 S = ''-'');
          S1 = (if take 1 S = ''-'' \<or> take 1 S = ''+'' then drop 1 S else S)
      in if take 8 S1 = ''Infinity'' then (if negative then NegInfinity else PosInfinity)
         else
          (let intDigits = takeWhile isDigit S1;
               S2 = dropWhile isDigit S1;
               fracDigits = (if take 1 S2 = ''.'' then takeWhile isDigit (drop 1 S2) else []);
               S3 = (if take 1 S2 = ''.'' then dropWhile isDigit (drop 1 S2) else S2);
               e = exponentPart S3;
               m = real (decimalValue intDigits)
                   + real (decimalValue fracDigits) / 10 ^ length fracDigits;
               v = (if 0 \<le> e then m * 10 ^ nat e else m / 10 ^ nat (- e))
           in if intDigits = [] \<and> fracDigits = [] then NaN
              else Num (if negative then - v else v)))"


section \<open>Math.pow and Date\<close>

text \<open>\<open>Math.pow(b, e)\<close>\<close>

definition Math_pow :: "number \<Rightarrow> number \<Rightarrow> number" where
  "Math_pow b e =
     (case e of
        NaN \<Rightarrow> NaN
      | Num y \<Rightarrow>
          if y = 0 then Num 1
          else (case b of
                  NaN \<Rightarrow> NaN
                | Num a \<Rightarrow>
                    if 0 < a then Num (a powr y)
                    else if a = 0 then (if 0 < y then Num 0 else PosInfinity)
                    else if y \<in> \<int> then Num ((if even \<lfloor>y\<rfloor> then 1 else - 1) * (\<bar>a\<bar> powr y))
                    else NaN
                | PosInfinity \<Rightarrow> if 0 < y then PosInfinity else Num 0
                | NegInfinity \<Rightarrow>
                    if 0 < y then (if y \<in> \<int> \<and> odd \<lfloor>y\<rfloor> then NegInfinity else PosInfinity)
                    else Num 0)
      | PosInfinity \<Rightarrow>
          (case b of
             NaN \<Rightarrow> NaN
           | Num a \<Rightarrow> if 1 < \<bar>a\<bar> then PosInfinity else if \<bar>a\<bar> = 1 then NaN else Num 0
           | _ \<Rightarrow> PosInfinity)
      | NegInfinity \<Rightarrow>
          (case b of
             NaN \<Rightarrow> NaN
           | Num a \<Rightarrow> if 1 < \<bar>a\<bar> then Num 0 else if \<bar>a\<bar> = 1 then NaN else PosInfinity
           | _ \<Rightarrow> Num 0))"

text \<open>
  A \<open>Date\<close> is modelled by its time value: milliseconds since 1970-01-01T00:00:00Z, or
  \<open>NaN\<close> for an invalid date. \<open>TimeClip\<close> is what the constructor and \<open>setTime\<close> apply.
\<close>

definition TimeClip :: "number \<Rightarrow> number" where
  "TimeClip t =
     (case t of
        Num a \<Rightarrow>
          if 8640000000000000 < \<bar>a\<bar> then NaN
          else Num (of_int (if 0 \<le> a then \<lfloor>a\<rfloor> else \<lceil>a\<rceil>))
      | _ \<Rightarrow> NaN)"

definition DayFromYear :: "int \<Rightarrow> int" where
  "DayFromYear y =
     365 * (y - 1970) + (y - 1969) div 4 - (y - 1901) div 100 + (y - 1601) div 400"

text \<open>\<open>Date.UTC(year, 0, 1)\<close>\<close>

definition Date_UTC_Jan1 :: "number \<Rightarrow> number" where
  "Date_UTC_Jan1 year =
     (case year of
        Num y \<Rightarrow>
          (let yi = (if 0 \<le> y then \<lfloor>y\<rfloor> else \<lceil>y\<rceil>);
               yr = (if 0 \<le> yi \<and> yi \<le> 99 then 1900 + yi else yi)
           in TimeClip (Num (of_int (DayFromYear yr) * 86400000)))
      | _ \<Rightarrow> NaN)"


section \<open>The element parser (utils/tleParser, \<open>parseTLE\<close>)\<close>

record OrbitalElements =
  satelliteNumber :: number
  classification :: string
  internationalDesignator :: string
  epochYear :: number
  epochDay :: number
  epochDate :: number
  meanMotionDot :: number
  bstar :: number
  inclination :: number
  raan :: number
  eccentricity :: number
  argOfPerigee :: number
  meanAnomaly :: number
  meanMotion :: number
  revNumber :: number
  period :: number
  semiMajorAxis :: number
  apogee :: number
  perigee :: number
  velocity :: number
  orbitType :: string

definition EARTH_RADIUS_KM :: number where
  "EARTH_RADIUS_KM = Num 6378.137"

definition MU_EARTH :: number where
  "MU_EARTH = Num 398600.4418"

text \<open>The classification at the end of \<open>parseTLE\<close>, from the perigee and the eccentricity.\<close>

definition classifyOrbit :: "number \<Rightarrow> number \<Rightarrow> string" where
  "classifyOrbit perigee' eccentricity' =
     (if num_lt perigee' (Num 2000) then
        (if num_gt eccentricity' (Num 0.25) then ''HEO'' else ''LEO'')
      else if num_lt perigee' (Num 35000) then ''MEO''
      else ''GEO'')"

text \<open>
  \<open>parseTLE\<close> has no \<open>throw\<close> and calls only string, number and date operations that
  return for every string, so it is a total function to the record.
\<close>

definition parseTLE :: "string \<Rightarrow> string \<Rightarrow> OrbitalElements" where
  "parseTLE line1 line2 =
     (let satelliteNumber' = parseInt (trim (substring 2 7 line1));
          classification' = charAt 7 line1;
          internationalDesignator' = trim (substring 9 17 line1);
          epochYearShort = parseInt (trim (substring 18 20 line1));
          epochDay' = parseFloat (trim (substring 20 32 line1));
          epochYear' = (if num_ge epochYearShort (Num 57)
                       then num_add (Num 1900) epochYearShort
                       else num_add (Num 2000) epochYearShort);
          epochDate' = TimeClip (num_add (TimeClip (Date_UTC_Jan1 epochYear'))
                        (num_mul (num_sub epochDay' (Num 1)) (Num 86400000)));
          meanMotionDot' = parseFloat (trim (substring 33 43 line1));
          bstarStr = trim (substring 53 61 line1);
          bstarMantissa = parseFloat
            (replaceFirst CHR '' '' CHR ''+'' (take (length bstarStr - 2) bstarStr));
          bstarExp = parseInt (drop (length bstarStr - 2) bstarStr);
          bstar' = num_mul bstarMantissa (Math_pow (Num 10) bstarExp);
          inclination' = parseFloat (trim (substring 8 16 line2));
          raan' = parseFloat (trim (substring 17 25 line2));
          eccentricity' = parseFloat (''0.'' @ trim (substring 26 33 line2));
          argOfPerigee' = parseFloat (trim (substring 34 42 line2));
          meanAnomaly' = parseFloat (trim (substring 43 51 line2));
          meanMotion' = parseFloat (trim (substring 52 63 line2));
          revNumber' = (let r = parseInt (trim (substring 63 68 line2))
                       in if isNaN r \<or> r = Num 0 then Num 0 else r);
          period' = num_div (Num 1440.0) meanMotion';
          periodSeconds = num_mul period' (Num 60);
          semiMajorAxis' = Math_pow
            (num_mul MU_EARTH
               (Math_pow (num_div periodSeconds (num_mul (Num 2) (Num pi))) (Num 2)))
            (num_div (Num 1) (Num 3));
          apogee' = num_sub (num_mul semiMajorAxis' (num_add (Num 1) eccentricity')) EARTH_RADIUS_KM;
          perigee' = num_sub (num_mul semiMajorAxis' (num_sub (Num 1) eccentricity')) EARTH_RADIUS_KM;
          velocity' = Math_sqrt (num_div MU_EARTH semiMajorAxis');
          orbitType' = classifyOrbit perigee' eccentricity'
      in \<lparr> satelliteNumber = satelliteNumber',
           classification = classification',
           internationalDesignator = internationalDesignator',
           epochYear = epochYear',
           epochDay = epochDay',
           epochDate = epochDate',
           meanMotionDot = meanMotionDot',
           bstar = bstar',
           inclination = inclination',
           raan = raan',
           eccentricity = eccentricity',
           argOfPerigee = argOfPerigee',
           meanAnomaly = meanAnomaly',
           meanMotion = meanMotion',
           revNumber = revNumber',
           period = period',
           semiMajorAxis = semiMajorAxis',
           apogee = apogee',
           perigee = perigee',
           velocity = velocity',
           orbitType = orbitType' \<rparr>)"


section \<open>Risk classification (services/conjunctions)\<close>

datatype RiskLevel = CRITICAL | HIGH | MODERATE | LOW

definition getRiskLevel :: "number \<Rightarrow> RiskLevel" where
  "getRiskLevel distance =
     (if num_lt distance (Num 1) then CRITICAL
      else if num_lt distance (Num 5) then HIGH
      else if num_lt distance (Num 25) then MODERATE
      else LOW)"

text \<open>
  Modelled from the spec: the Conjunction Screener's retention test. The screener is
  backend code that is not among the sources (the frontend only passes
  \<open>threshold_km\<close> to the \<open>/conjunctions/\<close> endpoint); section 4.4 of the spec says it
  retains the pairs "with distance < thresholdKm".
\<close>

definition retained :: "number \<Rightarrow> number \<Rightarrow> bool" where
  "retained distance thresholdKm = num_lt distance thresholdKm"


section \<open>The propagation worker (workers/propagation.worker.ts)\<close>

subsection \<open>Data\<close>

text \<open>The outcome of a call made inside a \<open>try\<close> block.\<close>

datatype 'a outcome = Throws | Returns 'a

datatype EciVec3 = EciVec3 number number number

text \<open>
  A \<open>position\<close> or \<open>velocity\<close> member of what \<open>propagate\<close> returns: absent, a boolean
  (its error flag) or a vector.
\<close>

datatype pv_member = Undefined | Boolean bool | Vector EciVec3

datatype PositionAndVelocity = PositionAndVelocity pv_member pv_member

record GeodeticLocation =
  longitude :: number
  latitude :: number
  height :: number

text \<open>
  The worker imports \<open>twoline2satrec\<close>, \<open>propagate\<close>, \<open>gstime\<close> and \<open>eciToGeodetic\<close>
  from the library satellite.js, which is not among the sources: they, and the \<open>Date\<close>
  constructor, are parameters of the model. \<open>propagate\<close> returns \<open>None\<close> for a falsy
  result.
\<close>

record ('satrec, 'date) satellite_js =
  Date :: "string \<Rightarrow> 'date"
  twoline2satrec :: "string \<Rightarrow> string \<Rightarrow> 'satrec outcome"
  propagate :: "'satrec \<Rightarrow> 'date \<Rightarrow> PositionAndVelocity option outcome"
  gstime :: "'date \<Rightarrow> number"
  eciToGeodetic :: "EciVec3 \<Rightarrow> number \<Rightarrow> GeodeticLocation outcome"

text \<open>
  The two degree conversions of satellite.js, through which every latitude and longitude
  of the worker passes (lines 89 and 90), as the library defines them: \<open>degreesLat\<close> throws
  a \<open>RangeError\<close> when the radians are below \<open>-pi/2\<close> or above \<open>pi/2\<close>, \<open>degreesLong\<close>
  when they are below \<open>-pi\<close> or above \<open>pi\<close>; otherwise both return the radians times
  \<open>180 / pi\<close>. A \<open>NaN\<close> passes both comparisons and is returned as \<open>NaN\<close>.
\<close>

definition radiansToDegrees :: "number \<Rightarrow> number" where
  "radiansToDegrees radians = num_mul radians (Num (180 / pi))"

definition degreesLat :: "number \<Rightarrow> number outcome" where
  "degreesLat radians =
     (if num_lt radians (Num (- pi / 2)) \<or> num_gt radians (Num (pi / 2)) then Throws
      else Returns (radiansToDegrees radians))"

definition degreesLong :: "number \<Rightarrow> number outcome" where
  "degreesLong radians =
     (if num_lt radians (Num (- pi)) \<or> num_gt radians (Num pi) then Throws
      else Returns (radiansToDegrees radians))"

record TLEInput =
  norad_id :: int
  name :: string
  object_type :: "string option"
  line1 :: string
  line2 :: string

record 'satrec SatRecord =
  norad_id :: int
  name :: string
  object_type :: string
  satrec :: 'satrec
  prevVelocity :: "number option"

text \<open>An element of the \<open>positions\<close> message.\<close>

record WorkerPosition =
  norad_id :: int
  name :: string
  object_type :: string
  lat :: number
  lon :: number
  alt :: number
  velocity :: number

record ManeuverEvent =
  norad_id :: int
  name :: string
  deltaV :: number
  prevVelocity :: number
  newVelocity :: number
  timestamp :: string

datatype message =
    init_complete nat
  | positions "WorkerPosition list"
  | maneuvers "ManeuverEvent list"

subsection \<open>initTLEs\<close>

text \<open>The loop of \<open>initTLEs\<close>: an element set whose \<open>twoline2satrec\<close> throws is skipped.\<close>

fun initLoop :: "('s, 'd) satellite_js \<Rightarrow> TLEInput list \<Rightarrow> 's SatRecord list" where
  "initLoop js [] = []"
| "initLoop js (tle # tles) =
     (case twoline2satrec js (line1 tle) (line2 tle) of
        Throws \<Rightarrow> initLoop js tles
      | Returns rec \<Rightarrow>
          \<lparr> SatRecord.norad_id = TLEInput.norad_id tle,
            SatRecord.name = TLEInput.name tle,
            SatRecord.object_type =
              (case TLEInput.object_type tle of
                 None \<Rightarrow> ''UNKNOWN''
               | Some t \<Rightarrow> if t = [] then ''UNKNOWN'' else t),
            satrec = rec,
            SatRecord.prevVelocity = None \<rparr> # initLoop js tles)"

text \<open>
  \<open>initTLEs\<close> assigns the module variable \<open>satellites\<close> (the first component, which
  does not depend on its old value) and posts one message.
\<close>

definition initTLEs ::
  "('s, 'd) satellite_js \<Rightarrow> TLEInput list \<Rightarrow> 's SatRecord list \<times> message list" where
  "initTLEs js tles =
     (let satellites = initLoop js tles
      in (satellites, [init_complete (length satellites)]))"

subsection \<open>propagateAll\<close>

text \<open>Lines 74 to 99 of the loop body: \<open>None\<close> when the body leaves by \<open>continue\<close> or
  through the \<open>catch\<close> before a velocity is computed, else the latitude, longitude,
  altitude and velocity magnitude.\<close>

definition magnitude :: "EciVec3 \<Rightarrow> number" where
  "magnitude v = (case v of EciVec3 vx vy vz \<Rightarrow>
     Math_sqrt (num_add (num_add (num_mul vx vx) (num_mul vy vy)) (num_mul vz vz)))"

definition observe ::
  "('s, 'd) satellite_js \<Rightarrow> 'd \<Rightarrow> number \<Rightarrow> 's SatRecord
     \<Rightarrow> (number \<times> number \<times> number \<times> number) option" where
  "observe js date gmst sat =
     (case propagate js (satrec sat) date of
        Throws \<Rightarrow> None
      | Returns None \<Rightarrow> None
      | Returns (Some (PositionAndVelocity pos vel)) \<Rightarrow>
          (case pos of
             Undefined \<Rightarrow> None
           | Boolean b \<Rightarrow> None
           | Vector positionEci \<Rightarrow>
               (case vel of
                  Undefined \<Rightarrow> None
                | Boolean b \<Rightarrow> None
                | Vector velocityEci \<Rightarrow>
                    (case eciToGeodetic js positionEci gmst of
                       Throws \<Rightarrow> None
                     | Returns geodetic \<Rightarrow>
                         (case degreesLat (latitude geodetic) of
                            Throws \<Rightarrow> None
                          | Returns la \<Rightarrow>
                              (case degreesLong (longitude geodetic) of
                                 Throws \<Rightarrow> None
                               | Returns lo \<Rightarrow>
                                   Some (la, lo, height geodetic, magnitude velocityEci)))))))"

text \<open>Lines 101 to 114: the maneuvers pushed for one satellite with the new velocity.\<close>

definition detectManeuver :: "string \<Rightarrow> 's SatRecord \<Rightarrow> number \<Rightarrow> ManeuverEvent list" where
  "detectManeuver ts sat v =
     (case SatRecord.prevVelocity sat of
        None \<Rightarrow> []
      | Some prev \<Rightarrow>
          if num_gt v (Num 0) then
            (let dv = Math_abs (num_sub v prev)
             in if num_gt dv (Num 0.05)
                then [\<lparr> ManeuverEvent.norad_id = SatRecord.norad_id sat,
                        ManeuverEvent.name = SatRecord.name sat,
                        deltaV = dv,
                        ManeuverEvent.prevVelocity = prev,
                        newVelocity = v,
                        timestamp = ts \<rparr>]
                else [])
          else [])"

text \<open>Lines 118 and 119: the position is kept when neither \<open>continue\<close> is taken.\<close>

definition validPosition :: "number \<Rightarrow> number \<Rightarrow> number \<Rightarrow> bool" where
  "validPosition la lo al =
     (if isNaN la \<or> isNaN lo \<or> isNaN al then False
      else if num_lt al (Num 0) \<or> num_gt al (Num 100000) then False
      else True)"

text \<open>One iteration of the loop: the satellite as the iteration leaves it, the
  results pushed and the maneuvers pushed.\<close>

definition propagateSat ::
  "('s, 'd) satellite_js \<Rightarrow> 'd \<Rightarrow> number \<Rightarrow> string \<Rightarrow> 's SatRecord
     \<Rightarrow> 's SatRecord \<times> WorkerPosition list \<times> ManeuverEvent list" where
  "propagateSat js date gmst ts sat =
     (case observe js date gmst sat of
        None \<Rightarrow> (sat, [], [])
      | Some (la, lo, al, v) \<Rightarrow>
          (sat\<lparr> SatRecord.prevVelocity := Some v \<rparr>,
           if validPosition la lo al
           then [\<lparr> WorkerPosition.norad_id = SatRecord.norad_id sat,
                   WorkerPosition.name = SatRecord.name sat,
                   WorkerPosition.object_type = SatRecord.object_type sat,
                   lat = la, lon = lo, alt = al, velocity = v \<rparr>]
           else [],
           detectManeuver ts sat v))"

fun propagateLoop ::
  "('s, 'd) satellite_js \<Rightarrow> 'd \<Rightarrow> number \<Rightarrow> string \<Rightarrow> 's SatRecord list
     \<Rightarrow> 's SatRecord list \<times> WorkerPosition list \<times> ManeuverEvent list" where
  "propagateLoop js date gmst ts [] = ([], [], [])"
| "propagateLoop js date gmst ts (sat # sats) =
     (case propagateSat js date gmst ts sat of (sat', rs, ms) \<Rightarrow>
        (case propagateLoop js date gmst ts sats of (sats', rs', ms') \<Rightarrow>
           (sat' # sats', rs @ rs', ms @ ms')))"

text \<open>\<open>propagateAll\<close>: the satellites after the call and the messages posted, in order.\<close>

definition propagateAll ::
  "('s, 'd) satellite_js \<Rightarrow> string \<Rightarrow> 's SatRecord list
     \<Rightarrow> 's SatRecord list \<times> message list" where
  "propagateAll js ts satellites =
     (let date = Date js ts;
          gmst = gstime js date
      in case propagateLoop js date gmst ts satellites of (satellites', results, mans) \<Rightarrow>
           (satellites',
            positions results # (if length mans > 0 then [maneuvers mans] else [])))"

text \<open>The message handler.\<close>

datatype event = Init "TLEInput list" | Propagate string | Other

definition onmessage ::
  "('s, 'd) satellite_js \<Rightarrow> 's SatRecord list \<Rightarrow> event
     \<Rightarrow> 's SatRecord list \<times> message list" where
  "onmessage js satellites ev =
     (case ev of
        Init tles \<Rightarrow> initTLEs js tles
      | Propagate ts \<Rightarrow> propagateAll js ts satellites
      | Other \<Rightarrow> (satellites, []))"

text \<open>The snapshot and the maneuvers among posted messages.\<close>

fun snapshot :: "message list \<Rightarrow> WorkerPosition list" where
  "snapshot [] = []"
| "snapshot (positions ps # ms) = ps @ snapshot ms"
| "snapshot (m # ms) = snapshot ms"

fun emitted :: "message list \<Rightarrow> ManeuverEvent list" where
  "emitted [] = []"
| "emitted (maneuvers es # ms) = es @ emitted ms"
| "emitted (m # ms) = emitted ms"


section \<open>The callers of \<open>parseTLE\<close> (components/SatelliteDetailPanel)\<close>

text \<open>
  A call of \<open>parseTLE\<close> on two strings, as it stands inside the \<open>try\<close> blocks of its
  callers. The function has no \<open>throw\<close>, and \<open>substring\<close>, \<open>charAt\<close>, \<open>trim\<close>,
  \<open>replace\<close>, \<open>parseInt\<close>, \<open>parseFloat\<close>, \<open>Math.pow\<close>, \<open>Math.sqrt\<close>, \<open>Date.UTC\<close> and
  \<open>setTime\<close> return for every argument, so the call returns the record.
\<close>

definition call_parseTLE :: "string \<Rightarrow> string \<Rightarrow> OrbitalElements outcome" where
  "call_parseTLE l1 l2 = Returns (parseTLE l1 l2)"

text \<open>
  The effect of SatelliteDetailPanel that parses a fetched element set (lines 43 to 50):
  from \<open>data?.tle\<close> and the \<open>elements\<close> state, the new \<open>elements\<close> state and what is
  written to the console.
\<close>

definition parseDetail ::
  "(string \<times> string) option \<Rightarrow> OrbitalElements option
     \<Rightarrow> OrbitalElements option \<times> string list" where
  "parseDetail tle elems =
     (case tle of
        None \<Rightarrow> (elems, [])
      | Some (l1, l2) \<Rightarrow>
          (case call_parseTLE l1 l2 of
             Returns parsed \<Rightarrow> (Some parsed, [])
           | Throws \<Rightarrow> (elems, [''TLE parse error:''])))"


section \<open>Test data\<close>

text \<open>Library behaviour for the examples: a date is its timestamp, \<open>twoline2satrec\<close> returns
  for every pair of strings, \<open>propagate\<close> returns what \<open>pv\<close> gives for the date,
  Greenwich sidereal time is 0 and \<open>eciToGeodetic\<close> returns the location \<open>geo\<close>.\<close>

definition fixed_js ::
  "(string \<Rightarrow> PositionAndVelocity option outcome) \<Rightarrow> GeodeticLocation
     \<Rightarrow> (unit, string) satellite_js" where
  "fixed_js pv geo =
     \<lparr> Date = (\<lambda>s. s),
       twoline2satrec = (\<lambda>l1 l2. Returns ()),
       propagate = (\<lambda>r d. pv d),
       gstime = (\<lambda>d. Num 0),
       eciToGeodetic = (\<lambda>p g. Returns geo) \<rparr>"

definition iss :: "unit SatRecord" where
  "iss = \<lparr> SatRecord.norad_id = 25544, SatRecord.name = ''ISS (ZARYA)'',
           SatRecord.object_type = ''PAYLOAD'', satrec = (),
           SatRecord.prevVelocity = Some (Num 7.5) \<rparr>"

text \<open>A satellite moving along the first axis at \<open>w\<close> km/s at every date.\<close>

definition moving :: "real \<Rightarrow> string \<Rightarrow> PositionAndVelocity option outcome" where
  "moving w = (\<lambda>d. Returns (Some (PositionAndVelocity
       (Vector (EciVec3 (Num 6778) (Num 0) (Num 0)))
       (Vector (EciVec3 (Num w) (Num 0) (Num 0))))))"

text \<open>A satellite moving at \<open>w\<close> km/s at noon and at \<open>w'\<close> km/s at every other date.\<close>

definition changing :: "real \<Rightarrow> real \<Rightarrow> string \<Rightarrow> PositionAndVelocity option outcome" where
  "changing w w' = (\<lambda>d. if d = ''2024-01-01T12:00:00.000Z'' then moving w d else moving w' d)"

text \<open>The geodetic location, in radians, at \<open>la\<close> degrees of latitude and \<open>lo\<close> degrees of
  longitude.\<close>

definition geodetic_at :: "real \<Rightarrow> real \<Rightarrow> number \<Rightarrow> GeodeticLocation" where
  "geodetic_at la lo al =
     \<lparr> longitude = Num (lo * pi / 180), latitude = Num (la * pi / 180), height = al \<rparr>"

definition iss_line1 :: string where
  "iss_line1 = ''1 25544U 98067A   24001.50000000  .00016717  00000-0  10270-3 0  9005''"

definition iss_line2 :: string where
  "iss_line2 = ''2 25544  51.6400 208.9163 0006703  69.9862  25.2906 15.49560532    17''"

text \<open>Line 2 of the same element set with the eccentricity field changed to 7000000.\<close>

definition sunk_line2 :: string where
  "sunk_line2 = ''2 25544  51.6400 208.9163 7000000  69.9862  25.2906 15.49560532    17''"

text \<open>Line 2 of the same element set with the mean-motion field changed to Infinity.\<close>

definition endless_line2 :: string where
  "endless_line2 = ''2 25544  51.6400 208.9163 0006703  69.9862  25.2906 Infinity       17''"

text \<open>Line 2 of the same element set with letters in the mean-motion field.\<close>

definition garbled_line2 :: string where
  "garbled_line2 = ''2 25544  51.6400 208.9163 0006703  69.9862  25.2906 XX.XXXXXXXX    17''"

text \<open>A catalog of two element sets, the second with empty lines.\<close>

definition catalog :: "TLEInput list" where
  "catalog =
     [\<lparr> TLEInput.norad_id = 25544, TLEInput.name = ''ISS (ZARYA)'',
        TLEInput.object_type = Some ''PAYLOAD'',
        line1 = iss_line1, line2 = iss_line2 \<rparr>,
      \<lparr> TLEInput.norad_id = 99999, TLEInput.name = ''BROKEN'',
        TLEInput.object_type = None, line1 = [], line2 = [] \<rparr>]"


section \<open>Properties of the worker and of the risk ladder\<close>

text \<open>Claim C6: risk classification returns CRITICAL when the distance is below 1, HIGH from 1
  to below 5, MODERATE from 5 to below 25 and LOW otherwise (also for \<open>NaN\<close>); 0.8 km is
  CRITICAL and 4.9 km is HIGH; a pair at 25.1 km is not retained by the screening
  test at threshold 25.\<close>

theorem getRiskLevel_ladder:
  "(getRiskLevel d = CRITICAL) = num_lt d (Num 1) \<and>
   (getRiskLevel d = HIGH) = (num_ge d (Num 1) \<and> num_lt d (Num 5)) \<and>
   (getRiskLevel d = MODERATE) = (num_ge d (Num 5) \<and> num_lt d (Num 25)) \<and>
   (getRiskLevel d = LOW) = (\<not> num_lt d (Num 25)) \<and>
   getRiskLevel (Num 0.8) = CRITICAL \<and>
   getRiskLevel (Num 4.9) = HIGH \<and>
   \<not> retained (Num 25.1) (Num 25)"
  by (cases d) (auto simp: getRiskLevel_def retained_def)

lemma magnitude_x_axis: "magnitude (EciVec3 (Num a) (Num 0) (Num 0)) = Num \<bar>a\<bar>"
  by (simp add: magnitude_def)

lemma detectManeuver_None:
  "SatRecord.prevVelocity sat = None \<Longrightarrow> detectManeuver ts sat v = []"
  by (simp add: detectManeuver_def)

lemma initLoop_prevVelocity:
  "s \<in> set (initLoop js tles) \<Longrightarrow> SatRecord.prevVelocity s = None"
  by (induction tles) (auto split: outcome.splits)

lemma initLoop_length:
  "length (initLoop js tles) =
     length (filter (\<lambda>t. twoline2satrec js (line1 t) (line2 t) \<noteq> Throws) tles)"
  by (induction tles) (auto split: outcome.splits)

lemma propagateLoop_no_baseline:
  "\<forall>s\<in>set sats. SatRecord.prevVelocity s = None \<Longrightarrow>
     snd (snd (propagateLoop js date gmst ts sats)) = []"
  by (induction sats) (auto simp: propagateSat_def detectManeuver_None split: prod.splits option.splits)

lemma emitted_propagateAll:
  "emitted (snd (propagateAll js ts sats)) =
     snd (snd (propagateLoop js (Date js ts) (gstime js (Date js ts)) ts sats))"
  by (auto simp: propagateAll_def Let_def split: prod.splits)

lemma snapshot_propagateAll:
  "snapshot (snd (propagateAll js ts sats)) =
     fst (snd (propagateLoop js (Date js ts) (gstime js (Date js ts)) ts sats))"
  by (auto simp: propagateAll_def Let_def split: prod.splits)

lemma satellites_propagateAll:
  "fst (propagateAll js ts sats) =
     fst (propagateLoop js (Date js ts) (gstime js (Date js ts)) ts sats)"
  by (auto simp: propagateAll_def Let_def split: prod.splits)

lemma propagateLoop_results:
  "fst (snd (propagateLoop js date gmst ts sats)) =
     concat (map (\<lambda>sat. fst (snd (propagateSat js date gmst ts sat))) sats)"
  by (induction sats) (auto split: prod.splits)

lemma propagateLoop_maneuvers:
  "snd (snd (propagateLoop js date gmst ts sats)) =
     concat (map (\<lambda>sat. snd (snd (propagateSat js date gmst ts sat))) sats)"
  by (induction sats) (auto split: prod.splits)

lemma propagateLoop_satellites:
  "fst (propagateLoop js date gmst ts sats) =
     map (\<lambda>sat. fst (propagateSat js date gmst ts sat)) sats"
  by (induction sats) (auto split: prod.splits)

lemma degreesLat_result:
  "degreesLat r = Returns x \<Longrightarrow> isFinite x \<or> isNaN x"
  by (cases r) (auto simp: degreesLat_def radiansToDegrees_def num_gt_def split: if_splits)

lemma degreesLong_result:
  "degreesLong r = Returns x \<Longrightarrow> isFinite x \<or> isNaN x"
  by (cases r) (auto simp: degreesLong_def radiansToDegrees_def num_gt_def split: if_splits)

lemma observe_coordinates:
  assumes "observe js date gmst sat = Some (la, lo, al, v)"
  shows "(isFinite la \<or> isNaN la) \<and> (isFinite lo \<or> isNaN lo)"
  using assms
  by (auto simp: observe_def
      split: outcome.splits option.splits PositionAndVelocity.splits pv_member.splits
      dest: degreesLat_result degreesLong_result)

lemma observe_prevVelocity:
  "observe js date gmst (sat\<lparr> SatRecord.prevVelocity := x \<rparr>) = observe js date gmst sat"
  by (simp add: observe_def)

lemma validPosition_iff:
  "validPosition la lo al =
     (\<not> isNaN la \<and> \<not> isNaN lo \<and> (\<exists>a. al = Num a \<and> 0 \<le> a \<and> a \<le> 100000))"
  by (cases al) (auto simp: validPosition_def num_gt_def)

lemma degreesLat_of_degrees:
  assumes "- 90 \<le> la" and "la \<le> 90"
  shows "degreesLat (Num (la * pi / 180)) = Returns (Num la)"
proof -
  have "- pi / 2 \<le> la * pi / 180" "la * pi / 180 \<le> pi / 2"
    using assms mult_right_mono [of "- 90" la pi] mult_right_mono [of la 90 pi]
    by simp_all
  then show ?thesis
    by (simp add: degreesLat_def radiansToDegrees_def num_gt_def not_less [symmetric])
qed

lemma degreesLong_of_degrees:
  assumes "- 180 \<le> lo" and "lo \<le> 180"
  shows "degreesLong (Num (lo * pi / 180)) = Returns (Num lo)"
proof -
  have "- pi \<le> lo * pi / 180" "lo * pi / 180 \<le> pi"
    using assms mult_right_mono [of "- 180" lo pi] mult_right_mono [of lo 180 pi]
    by simp_all
  then show ?thesis
    by (simp add: degreesLong_def radiansToDegrees_def num_gt_def not_less [symmetric])
qed

lemma observe_fixed:
  assumes "- 90 \<le> la" and "la \<le> 90" and "- 180 \<le> lo" and "lo \<le> 180"
  shows "observe (fixed_js (moving w) (geodetic_at la lo al)) d g sat =
     Some (Num la, Num lo, al, Num \<bar>w\<bar>)"
  by (simp add: observe_def fixed_js_def moving_def geodetic_at_def magnitude_x_axis
      degreesLat_of_degrees [OF assms(1,2)] degreesLong_of_degrees [OF assms(3,4)])

lemma observe_changing:
  assumes "- 90 \<le> la" and "la \<le> 90" and "- 180 \<le> lo" and "lo \<le> 180"
  shows "observe (fixed_js (changing w w') (geodetic_at la lo al)) d g sat =
     Some (Num la, Num lo, al, Num (if d = ''2024-01-01T12:00:00.000Z'' then \<bar>w\<bar> else \<bar>w'\<bar>))"
  by (simp add: observe_def fixed_js_def changing_def moving_def geodetic_at_def magnitude_x_axis
      degreesLat_of_degrees [OF assms(1,2)] degreesLong_of_degrees [OF assms(3,4)])

lemma propagateSat_maneuvers:
  "snd (snd (propagateSat js date gmst ts sat)) =
     (case observe js date gmst sat of
        None \<Rightarrow> []
      | Some (la, lo, al, v) \<Rightarrow>
          (case SatRecord.prevVelocity sat of
             None \<Rightarrow> []
           | Some prev \<Rightarrow>
               if num_gt v (Num 0) \<and> num_gt (Math_abs (num_sub v prev)) (Num 0.05)
               then [\<lparr> ManeuverEvent.norad_id = SatRecord.norad_id sat,
                       ManeuverEvent.name = SatRecord.name sat,
                       deltaV = Math_abs (num_sub v prev),
                       ManeuverEvent.prevVelocity = prev,
                       newVelocity = v,
                       timestamp = ts \<rparr>]
               else []))"
  by (simp add: propagateSat_def detectManeuver_def Let_def split: option.splits)

lemma propagateSat_satellite:
  "fst (propagateSat js date gmst ts sat) =
     (case observe js date gmst sat of
        None \<Rightarrow> sat
      | Some (la, lo, al, v) \<Rightarrow> sat\<lparr> SatRecord.prevVelocity := Some v \<rparr>)"
  by (simp add: propagateSat_def split: option.splits)

text \<open>Claim C2, as the worker does it. For every tracked set and every \<open>propagate\<close> message, the
  maneuvers posted are, satellite by satellite in order, one event carrying both velocities
  and the delta exactly when the satellite is observed with velocity \<open>v\<close>, a previous
  velocity is stored, \<open>v > 0\<close> and \<open>|v - prev| > 0.05\<close>; nothing is posted for a satellite
  without a stored velocity. Every observed satellite has \<open>v\<close> stored afterwards, whether
  or not an event was posted. So over two successive \<open>propagate\<close> messages a satellite
  observed at \<open>v\<close> and then at \<open>v'\<close> gives an event at the second exactly when \<open>v' > 0\<close> and
  \<open>|v' - v| > 0.05\<close>. 7.500 then 7.560 gives an event with delta 0.060; 7.500 then 7.530
  gives none.\<close>

theorem maneuver_detection:
  "emitted (snd (propagateAll js ts sats)) =
     concat (map (\<lambda>sat.
       case observe js (Date js ts) (gstime js (Date js ts)) sat of
         None \<Rightarrow> []
       | Some (la, lo, al, v) \<Rightarrow>
           (case SatRecord.prevVelocity sat of
              None \<Rightarrow> []
            | Some prev \<Rightarrow>
                if num_gt v (Num 0) \<and> num_gt (Math_abs (num_sub v prev)) (Num 0.05)
                then [\<lparr> ManeuverEvent.norad_id = SatRecord.norad_id sat,
                        ManeuverEvent.name = SatRecord.name sat,
                        deltaV = Math_abs (num_sub v prev),
                        ManeuverEvent.prevVelocity = prev,
                        newVelocity = v,
                        timestamp = ts \<rparr>]
                else [])) sats) \<and>
   fst (propagateAll js ts sats) =
     map (\<lambda>sat.
       case observe js (Date js ts) (gstime js (Date js ts)) sat of
         None \<Rightarrow> sat
       | Some (la, lo, al, v) \<Rightarrow> sat\<lparr> SatRecord.prevVelocity := Some v \<rparr>) sats \<and>
   emitted (snd (propagateAll js ts' (fst (propagateAll js ts sats)))) =
     concat (map (\<lambda>sat.
       case observe js (Date js ts') (gstime js (Date js ts')) sat of
         None \<Rightarrow> []
       | Some (la', lo', al', v') \<Rightarrow>
           (case (case observe js (Date js ts) (gstime js (Date js ts)) sat of
                    None \<Rightarrow> SatRecord.prevVelocity sat
                  | Some (la, lo, al, v) \<Rightarrow> Some v) of
              None \<Rightarrow> []
            | Some prev \<Rightarrow>
                if num_gt v' (Num 0) \<and> num_gt (Math_abs (num_sub v' prev)) (Num 0.05)
                then [\<lparr> ManeuverEvent.norad_id = SatRecord.norad_id sat,
                        ManeuverEvent.name = SatRecord.name sat,
                        deltaV = Math_abs (num_sub v' prev),
                        ManeuverEvent.prevVelocity = prev,
                        newVelocity = v',
                        timestamp = ts' \<rparr>]
                else [])) sats) \<and>
   detectManeuver ts (sat\<lparr> SatRecord.prevVelocity := Some (Num 7.5) \<rparr>) (Num 7.56) =
     [\<lparr> ManeuverEvent.norad_id = SatRecord.norad_id sat,
        ManeuverEvent.name = SatRecord.name sat,
        deltaV = Num 0.06,
        ManeuverEvent.prevVelocity = Num 7.5,
        newVelocity = Num 7.56,
        timestamp = ts \<rparr>] \<and>
   detectManeuver ts (sat\<lparr> SatRecord.prevVelocity := Some (Num 7.5) \<rparr>) (Num 7.53) = []"
proof -
  have one: "emitted (snd (propagateAll js t xs)) =
     concat (map (\<lambda>sat.
       case observe js (Date js t) (gstime js (Date js t)) sat of
         None \<Rightarrow> []
       | Some (la, lo, al, v) \<Rightarrow>
           (case SatRecord.prevVelocity sat of
              None \<Rightarrow> []
            | Some prev \<Rightarrow>
                if num_gt v (Num 0) \<and> num_gt (Math_abs (num_sub v prev)) (Num 0.05)
                then [\<lparr> ManeuverEvent.norad_id = SatRecord.norad_id sat,
                        ManeuverEvent.name = SatRecord.name sat,
                        deltaV = Math_abs (num_sub v prev),
                        ManeuverEvent.prevVelocity = prev,
                        newVelocity = v,
                        timestamp = t \<rparr>]
                else [])) xs)" for t and xs :: "'a SatRecord list"
    by (simp add: emitted_propagateAll propagateLoop_maneuvers propagateSat_maneuvers)
  have stored: "fst (propagateAll js ts sats) =
     map (\<lambda>sat.
       case observe js (Date js ts) (gstime js (Date js ts)) sat of
         None \<Rightarrow> sat
       | Some (la, lo, al, v) \<Rightarrow> sat\<lparr> SatRecord.prevVelocity := Some v \<rparr>) sats"
    by (simp add: satellites_propagateAll propagateLoop_satellites propagateSat_satellite)
  have two: "emitted (snd (propagateAll js ts' (fst (propagateAll js ts sats)))) =
     concat (map (\<lambda>sat.
       case observe js (Date js ts') (gstime js (Date js ts')) sat of
         None \<Rightarrow> []
       | Some (la', lo', al', v') \<Rightarrow>
           (case (case observe js (Date js ts) (gstime js (Date js ts)) sat of
                    None \<Rightarrow> SatRecord.prevVelocity sat
                  | Some (la, lo, al, v) \<Rightarrow> Some v) of
              None \<Rightarrow> []
            | Some prev \<Rightarrow>
                if num_gt v' (Num 0) \<and> num_gt (Math_abs (num_sub v' prev)) (Num 0.05)
                then [\<lparr> ManeuverEvent.norad_id = SatRecord.norad_id sat,
                        ManeuverEvent.name = SatRecord.name sat,
                        deltaV = Math_abs (num_sub v' prev),
                        ManeuverEvent.prevVelocity = prev,
                        newVelocity = v',
                        timestamp = ts' \<rparr>]
                else [])) sats)"
    unfolding one stored map_map
    by (intro arg_cong [where f = concat] map_cong refl)
       (auto simp: observe_prevVelocity split: option.splits)
  have ex: "detectManeuver ts (sat\<lparr> SatRecord.prevVelocity := Some (Num 7.5) \<rparr>) (Num 7.56) =
     [\<lparr> ManeuverEvent.norad_id = SatRecord.norad_id sat,
        ManeuverEvent.name = SatRecord.name sat,
        deltaV = Num 0.06,
        ManeuverEvent.prevVelocity = Num 7.5,
        newVelocity = Num 7.56,
        timestamp = ts \<rparr>]"
    "detectManeuver ts (sat\<lparr> SatRecord.prevVelocity := Some (Num 7.5) \<rparr>) (Num 7.53) = []"
    by (simp_all add: detectManeuver_def Let_def num_gt_def num_sub_def)
  show ?thesis
    using one [of ts sats] stored two ex by (intro conjI)
qed

lemma fixed_js_clock:
  "Date (fixed_js pv geo) ts = ts" "gstime (fixed_js pv geo) d = Num 0"
  by (simp_all add: fixed_js_def)

lemma propagateAll_single:
  "observe js (Date js ts) (gstime js (Date js ts)) sat = Some (la, lo, al, v) \<Longrightarrow>
   propagateAll js ts [sat] =
     ([sat\<lparr> SatRecord.prevVelocity := Some v \<rparr>],
      positions (if validPosition la lo al
                 then [\<lparr> WorkerPosition.norad_id = SatRecord.norad_id sat,
                         WorkerPosition.name = SatRecord.name sat,
                         WorkerPosition.object_type = SatRecord.object_type sat,
                         lat = la, lon = lo, alt = al, velocity = v \<rparr>]
                 else [])
      # (if detectManeuver ts sat v = [] then [] else [maneuvers (detectManeuver ts sat v)]))"
  by (simp add: propagateAll_def propagateSat_def Let_def)

text \<open>The theorem at a satellite never observed before, seen at 7.5 km/s at noon: nothing is
  posted and 7.5 is stored. Two seconds later it is seen at 7.56 km/s and the event with
  delta 0.06 is posted; seen at 7.53 km/s instead, nothing is posted.\<close>

theorem maneuver_detection_witness:
  "propagateAll (fixed_js (changing 7.5 7.56) (geodetic_at 20 10 (Num 400)))
       ''2024-01-01T12:00:00.000Z'' [iss\<lparr> SatRecord.prevVelocity := None \<rparr>] =
     ([iss],
      [positions [\<lparr> WorkerPosition.norad_id = 25544, WorkerPosition.name = ''ISS (ZARYA)'',
         WorkerPosition.object_type = ''PAYLOAD'',
         lat = Num 20, lon = Num 10, alt = Num 400, velocity = Num 7.5 \<rparr>]]) \<and>
   propagateAll (fixed_js (changing 7.5 7.56) (geodetic_at 20 10 (Num 400)))
       ''2024-01-01T12:00:02.000Z'' [iss] =
     ([iss\<lparr> SatRecord.prevVelocity := Some (Num 7.56) \<rparr>],
      [positions [\<lparr> WorkerPosition.norad_id = 25544, WorkerPosition.name = ''ISS (ZARYA)'',
         WorkerPosition.object_type = ''PAYLOAD'',
         lat = Num 20, lon = Num 10, alt = Num 400, velocity = Num 7.56 \<rparr>],
       maneuvers [\<lparr> ManeuverEvent.norad_id = 25544,
         ManeuverEvent.name = ''ISS (ZARYA)'',
         deltaV = Num 0.06,
         ManeuverEvent.prevVelocity = Num 7.5,
         newVelocity = Num 7.56,
         timestamp = ''2024-01-01T12:00:02.000Z'' \<rparr>]]) \<and>
   propagateAll (fixed_js (changing 7.5 7.53) (geodetic_at 20 10 (Num 400)))
       ''2024-01-01T12:00:02.000Z'' [iss] =
     ([iss\<lparr> SatRecord.prevVelocity := Some (Num 7.53) \<rparr>],
      [positions [\<lparr> WorkerPosition.norad_id = 25544, WorkerPosition.name = ''ISS (ZARYA)'',
         WorkerPosition.object_type = ''PAYLOAD'',
         lat = Num 20, lon = Num 10, alt = Num 400, velocity = Num 7.53 \<rparr>]])"
proof -
  let ?js = "fixed_js (changing 7.5 7.56) (geodetic_at 20 10 (Num 400))"
  let ?js' = "fixed_js (changing 7.5 7.53) (geodetic_at 20 10 (Num 400))"
  have obs: "observe (fixed_js (changing w w') (geodetic_at 20 10 (Num 400)))
      (Date (fixed_js (changing w w') (geodetic_at 20 10 (Num 400))) t)
      (gstime (fixed_js (changing w w') (geodetic_at 20 10 (Num 400)))
         (Date (fixed_js (changing w w') (geodetic_at 20 10 (Num 400))) t)) sat =
      Some (Num 20, Num 10, Num 400,
        Num (if t = ''2024-01-01T12:00:00.000Z'' then \<bar>w\<bar> else \<bar>w'\<bar>))" for w w' t sat
    by (simp add: fixed_js_clock observe_changing)
  have first: "propagateAll ?js ''2024-01-01T12:00:00.000Z''
      [iss\<lparr> SatRecord.prevVelocity := None \<rparr>] =
     ([iss],
      [positions [\<lparr> WorkerPosition.norad_id = 25544, WorkerPosition.name = ''ISS (ZARYA)'',
         WorkerPosition.object_type = ''PAYLOAD'',
         lat = Num 20, lon = Num 10, alt = Num 400, velocity = Num 7.5 \<rparr>]])"
    by (simp add: propagateAll_single [OF obs] validPosition_def num_gt_def detectManeuver_def
        iss_def)
  have second: "propagateAll ?js ''2024-01-01T12:00:02.000Z'' [iss] =
     ([iss\<lparr> SatRecord.prevVelocity := Some (Num 7.56) \<rparr>],
      [positions [\<lparr> WorkerPosition.norad_id = 25544, WorkerPosition.name = ''ISS (ZARYA)'',
         WorkerPosition.object_type = ''PAYLOAD'',
         lat = Num 20, lon = Num 10, alt = Num 400, velocity = Num 7.56 \<rparr>],
       maneuvers [\<lparr> ManeuverEvent.norad_id = 25544,
         ManeuverEvent.name = ''ISS (ZARYA)'',
         deltaV = Num 0.06,
         ManeuverEvent.prevVelocity = Num 7.5,
         newVelocity = Num 7.56,
         timestamp = ''2024-01-01T12:00:02.000Z'' \<rparr>]])"
    by (simp add: propagateAll_single [OF obs] validPosition_def num_gt_def num_sub_def
        detectManeuver_def iss_def)
  have third: "propagateAll ?js' ''2024-01-01T12:00:02.000Z'' [iss] =
     ([iss\<lparr> SatRecord.prevVelocity := Some (Num 7.53) \<rparr>],
      [positions [\<lparr> WorkerPosition.norad_id = 25544, WorkerPosition.name = ''ISS (ZARYA)'',
         WorkerPosition.object_type = ''PAYLOAD'',
         lat = Num 20, lon = Num 10, alt = Num 400, velocity = Num 7.53 \<rparr>]])"
    by (simp add: propagateAll_single [OF obs] validPosition_def num_gt_def num_sub_def
        detectManeuver_def iss_def)
  show ?thesis
    using maneuver_detection [of ?js "''2024-01-01T12:00:00.000Z''"
        "[iss\<lparr> SatRecord.prevVelocity := None \<rparr>]" "''2024-01-01T12:00:02.000Z''"]
      first second third
    by (intro conjI)
qed

text \<open>Claim C2 as stated fails when the new velocity is 0: a previous velocity exists and the
  difference 7.5 exceeds 0.05, yet the guard \<open>velocity > 0\<close> suppresses the event and no
  \<open>maneuvers\<close> message is posted.\<close>

theorem maneuver_zero_velocity_counterexample:
  "SatRecord.prevVelocity iss = Some (Num 7.5) \<and>
   num_gt (Math_abs (num_sub (Num 0) (Num 7.5))) (Num 0.05) \<and>
   propagateAll (fixed_js (moving 0) (geodetic_at 20 10 (Num 400)))
       ''2024-01-01T12:00:00.000Z'' [iss] =
     ([iss\<lparr> SatRecord.prevVelocity := Some (Num 0) \<rparr>],
      [positions [\<lparr> WorkerPosition.norad_id = 25544, WorkerPosition.name = ''ISS (ZARYA)'',
         WorkerPosition.object_type = ''PAYLOAD'',
         lat = Num 20, lon = Num 10, alt = Num 400, velocity = Num 0 \<rparr>]])"
proof -
  have obs: "observe (fixed_js (moving 0) (geodetic_at 20 10 (Num 400)))
      (Date (fixed_js (moving 0) (geodetic_at 20 10 (Num 400))) ''2024-01-01T12:00:00.000Z'')
      (gstime (fixed_js (moving 0) (geodetic_at 20 10 (Num 400)))
         (Date (fixed_js (moving 0) (geodetic_at 20 10 (Num 400))) ''2024-01-01T12:00:00.000Z''))
      sat = Some (Num 20, Num 10, Num 400, Num 0)" for sat
    by (simp add: observe_fixed)
  show ?thesis
    by (simp add: propagateAll_single [OF obs] validPosition_def num_gt_def num_sub_def
        detectManeuver_def iss_def)
qed

lemma propagateSat_results:
  "fst (snd (propagateSat js date gmst ts sat)) =
     (case observe js date gmst sat of
        None \<Rightarrow> []
      | Some (la, lo, al, v) \<Rightarrow>
          if isFinite la \<and> isFinite lo \<and> isFinite al \<and>
             (\<exists>a. al = Num a \<and> 0 \<le> a \<and> a \<le> 100000)
          then [\<lparr> WorkerPosition.norad_id = SatRecord.norad_id sat,
                  WorkerPosition.name = SatRecord.name sat,
                  WorkerPosition.object_type = SatRecord.object_type sat,
                  lat = la, lon = lo, alt = al, velocity = v \<rparr>]
          else [])"
proof (cases "observe js date gmst sat")
  case None
  then show ?thesis by (simp add: propagateSat_def)
next
  case (Some obs)
  obtain la lo al v where obs: "obs = (la, lo, al, v)"
    by (cases obs) auto
  have "(isFinite la \<or> isNaN la) \<and> (isFinite lo \<or> isNaN lo)"
    using Some obs by (intro observe_coordinates) simp
  then have "validPosition la lo al =
      (isFinite la \<and> isFinite lo \<and> isFinite al \<and> (\<exists>a. al = Num a \<and> 0 \<le> a \<and> a \<le> 100000))"
    by (cases la; cases lo) (auto simp: validPosition_iff)
  then show ?thesis
    using Some obs by (simp add: propagateSat_def)
qed

lemma snapshot_observed:
  "snapshot (snd (propagateAll js ts sats)) =
     concat (map (\<lambda>sat.
       case observe js (Date js ts) (gstime js (Date js ts)) sat of
         None \<Rightarrow> []
       | Some (la, lo, al, v) \<Rightarrow>
           if isFinite la \<and> isFinite lo \<and> isFinite al \<and>
              (\<exists>a. al = Num a \<and> 0 \<le> a \<and> a \<le> 100000)
           then [\<lparr> WorkerPosition.norad_id = SatRecord.norad_id sat,
                   WorkerPosition.name = SatRecord.name sat,
                   WorkerPosition.object_type = SatRecord.object_type sat,
                   lat = la, lon = lo, alt = al, velocity = v \<rparr>]
           else []) sats)"
  by (simp add: snapshot_propagateAll propagateLoop_results propagateSat_results)

text \<open>Claim C4: every position of the published snapshot has a finite latitude, longitude and
  altitude, and its altitude is within [0, 100000]; the snapshot holds exactly the
  observations that satisfy this, in order, so that every other result is dropped.\<close>

theorem snapshot_positions_valid:
  "(\<forall>p \<in> set (snapshot (snd (propagateAll js ts sats))).
      isFinite (lat p) \<and> isFinite (lon p) \<and> isFinite (alt p) \<and>
      (\<exists>a. alt p = Num a \<and> 0 \<le> a \<and> a \<le> 100000)) \<and>
   snapshot (snd (propagateAll js ts sats)) =
     concat (map (\<lambda>sat.
       case observe js (Date js ts) (gstime js (Date js ts)) sat of
         None \<Rightarrow> []
       | Some (la, lo, al, v) \<Rightarrow>
           if isFinite la \<and> isFinite lo \<and> isFinite al \<and>
              (\<exists>a. al = Num a \<and> 0 \<le> a \<and> a \<le> 100000)
           then [\<lparr> WorkerPosition.norad_id = SatRecord.norad_id sat,
                   WorkerPosition.name = SatRecord.name sat,
                   WorkerPosition.object_type = SatRecord.object_type sat,
                   lat = la, lon = lo, alt = al, velocity = v \<rparr>]
           else []) sats)"
proof -
  have "isFinite (lat p) \<and> isFinite (lon p) \<and> isFinite (alt p) \<and>
      (\<exists>a. alt p = Num a \<and> 0 \<le> a \<and> a \<le> 100000)"
    if "p \<in> set (snapshot (snd (propagateAll js ts sats)))" for p
    using that unfolding snapshot_observed
    by (auto split: option.splits if_splits)
  then show ?thesis
    using snapshot_observed [of js ts sats] by blast
qed

text \<open>The theorem at one satellite: kept at altitude 400 km; dropped at 100000.5 km, at a
  \<open>NaN\<close> altitude, at an infinite latitude in radians (the conversion throws) and at a
  \<open>NaN\<close> longitude.\<close>

theorem snapshot_positions_valid_witness:
  "snapshot (snd (propagateAll (fixed_js (moving 7.56) (geodetic_at 20 10 (Num 400)))
       ''2024-01-01T12:00:00.000Z'' [iss])) =
     [\<lparr> WorkerPosition.norad_id = 25544, WorkerPosition.name = ''ISS (ZARYA)'',
        WorkerPosition.object_type = ''PAYLOAD'',
        lat = Num 20, lon = Num 10, alt = Num 400, velocity = Num 7.56 \<rparr>] \<and>
   snapshot (snd (propagateAll (fixed_js (moving 7.56) (geodetic_at 20 10 (Num 100000.5)))
       ''2024-01-01T12:00:00.000Z'' [iss])) = [] \<and>
   snapshot (snd (propagateAll (fixed_js (moving 7.56) (geodetic_at 20 10 NaN))
       ''2024-01-01T12:00:00.000Z'' [iss])) = [] \<and>
   snapshot (snd (propagateAll
       (fixed_js (moving 7.56) \<lparr> longitude = Num 0, latitude = PosInfinity, height = Num 400 \<rparr>)
       ''2024-01-01T12:00:00.000Z'' [iss])) = [] \<and>
   snapshot (snd (propagateAll
       (fixed_js (moving 7.56) \<lparr> longitude = NaN, latitude = Num 0, height = Num 400 \<rparr>)
       ''2024-01-01T12:00:00.000Z'' [iss])) = []"
proof -
  have thrown: "observe
      (fixed_js (moving w) \<lparr> longitude = Num 0, latitude = PosInfinity, height = Num 400 \<rparr>)
      d g sat = None" for w d g sat
    by (simp add: observe_def fixed_js_def moving_def degreesLat_def num_gt_def)
  have nan: "observe
      (fixed_js (moving w) \<lparr> longitude = NaN, latitude = Num 0, height = Num 400 \<rparr>)
      d g sat = Some (Num 0, NaN, Num 400, Num \<bar>w\<bar>)" for w d g sat
    by (simp add: observe_def fixed_js_def moving_def degreesLat_def degreesLong_def num_gt_def
        radiansToDegrees_def magnitude_x_axis)
  show ?thesis
    using snapshot_positions_valid
      [of "fixed_js (moving 7.56) (geodetic_at 20 10 (Num 400))" "''2024-01-01T12:00:00.000Z''"
        "[iss]"]
    by (simp add: snapshot_observed observe_fixed thrown nan iss_def)
qed

text \<open>Claim C9: when the observed position fails the validity filter, the iteration still
  overwrites the stored velocity and pushes the maneuver the detector finds, while no
  position is pushed.\<close>

theorem detection_precedes_filter:
  assumes "observe js date gmst sat = Some (la, lo, al, v)"
    and "isNaN la \<or> isNaN lo \<or> isNaN al \<or> num_lt al (Num 0) \<or> num_gt al (Num 100000)"
  shows "propagateSat js date gmst ts sat =
           (sat\<lparr> SatRecord.prevVelocity := Some v \<rparr>, [], detectManeuver ts sat v)"
  using assms by (auto simp: propagateSat_def validPosition_def)

text \<open>An input of claim C9: at altitude 150000 km the snapshot is empty, the maneuver is
  posted and the stored velocity is 7.56.\<close>

theorem detection_precedes_filter_witness:
  "propagateAll (fixed_js (moving 7.56) (geodetic_at 20 10 (Num 150000)))
       ''2024-01-01T12:00:00.000Z'' [iss] =
     ([iss\<lparr> SatRecord.prevVelocity := Some (Num 7.56) \<rparr>],
      [positions [],
       maneuvers [\<lparr> ManeuverEvent.norad_id = 25544,
          ManeuverEvent.name = ''ISS (ZARYA)'',
          deltaV = Num 0.06,
          ManeuverEvent.prevVelocity = Num 7.5,
          newVelocity = Num 7.56,
          timestamp = ''2024-01-01T12:00:00.000Z'' \<rparr>]])"
proof -
  let ?js = "fixed_js (moving 7.56) (geodetic_at 20 10 (Num 150000))"
  have obs: "observe ?js (Date ?js ''2024-01-01T12:00:00.000Z'')
      (gstime ?js (Date ?js ''2024-01-01T12:00:00.000Z'')) iss =
       Some (Num 20, Num 10, Num 150000, Num 7.56)"
    by (simp add: observe_fixed)
  have out: "isNaN (Num 20) \<or> isNaN (Num 10) \<or> isNaN (Num 150000) \<or>
      num_lt (Num 150000) (Num 0) \<or> num_gt (Num 150000) (Num 100000)"
    by (simp add: num_gt_def)
  show ?thesis
    using detection_precedes_filter [OF obs out, of "''2024-01-01T12:00:00.000Z''"]
    by (simp add: propagateAll_def Let_def detectManeuver_def iss_def num_gt_def num_sub_def)
qed

text \<open>Claim C10: an \<open>init\<close> message replaces the tracked set whatever it was, leaves every
  stored velocity \<open>null\<close>, and reports as count the number of element sets that
  \<open>twoline2satrec\<close> accepted; the next \<open>propagate\<close> message emits no maneuver.\<close>

theorem init_resets_velocity_cache:
  "fst (onmessage js old (Init tles)) = fst (onmessage js [] (Init tles)) \<and>
   (\<forall>s \<in> set (fst (onmessage js old (Init tles))). SatRecord.prevVelocity s = None) \<and>
   emitted (snd (onmessage js (fst (onmessage js old (Init tles))) (Propagate ts))) = [] \<and>
   snd (onmessage js old (Init tles)) =
     [init_complete (length (fst (onmessage js old (Init tles))))] \<and>
   length (fst (onmessage js old (Init tles))) =
     length (filter (\<lambda>t. twoline2satrec js (line1 t) (line2 t) \<noteq> Throws) tles)"
  by (simp add: onmessage_def initTLEs_def Let_def initLoop_prevVelocity initLoop_length
      emitted_propagateAll propagateLoop_no_baseline)

text \<open>The theorem at the catalog of two element sets, and at the first tick after it.\<close>

theorem init_resets_velocity_cache_witness:
  "onmessage (fixed_js (moving 7.56) (geodetic_at 20 10 (Num 400))) [iss] (Init catalog) =
     ([iss\<lparr> SatRecord.prevVelocity := None \<rparr>,
       \<lparr> SatRecord.norad_id = 99999, SatRecord.name = ''BROKEN'',
         SatRecord.object_type = ''UNKNOWN'', satrec = (),
         SatRecord.prevVelocity = None \<rparr>],
      [init_complete 2]) \<and>
   onmessage (fixed_js (moving 7.56) (geodetic_at 20 10 (Num 400)))
       [iss\<lparr> SatRecord.prevVelocity := None \<rparr>] (Propagate ''2024-01-01T12:00:00.000Z'') =
     ([iss\<lparr> SatRecord.prevVelocity := Some (Num 7.56) \<rparr>],
      [positions [\<lparr> WorkerPosition.norad_id = 25544, WorkerPosition.name = ''ISS (ZARYA)'',
        WorkerPosition.object_type = ''PAYLOAD'',
        lat = Num 20, lon = Num 10, alt = Num 400, velocity = Num 7.56 \<rparr>]])"
proof -
  let ?js = "fixed_js (moving 7.56) (geodetic_at 20 10 (Num 400))"
  have obs: "observe (fixed_js (moving w) (geodetic_at 20 10 (Num 400)))
      (Date (fixed_js (moving w) (geodetic_at 20 10 (Num 400))) t)
      (gstime (fixed_js (moving w) (geodetic_at 20 10 (Num 400)))
         (Date (fixed_js (moving w) (geodetic_at 20 10 (Num 400))) t)) sat =
      Some (Num 20, Num 10, Num 400, Num \<bar>w\<bar>)" for w t sat
    by (simp add: observe_fixed)
  have init: "onmessage ?js [iss] (Init catalog) =
     ([iss\<lparr> SatRecord.prevVelocity := None \<rparr>,
       \<lparr> SatRecord.norad_id = 99999, SatRecord.name = ''BROKEN'',
         SatRecord.object_type = ''UNKNOWN'', satrec = (),
         SatRecord.prevVelocity = None \<rparr>],
      [init_complete 2])"
    by (simp add: onmessage_def initTLEs_def catalog_def iss_def fixed_js_def)
  have tick: "onmessage ?js [iss\<lparr> SatRecord.prevVelocity := None \<rparr>]
      (Propagate ''2024-01-01T12:00:00.000Z'') =
     ([iss\<lparr> SatRecord.prevVelocity := Some (Num 7.56) \<rparr>],
      [positions [\<lparr> WorkerPosition.norad_id = 25544, WorkerPosition.name = ''ISS (ZARYA)'',
        WorkerPosition.object_type = ''PAYLOAD'',
        lat = Num 20, lon = Num 10, alt = Num 400, velocity = Num 7.56 \<rparr>]])"
    by (simp add: onmessage_def propagateAll_single [OF obs] validPosition_def num_gt_def
        detectManeuver_def iss_def)
  show ?thesis
    using init_resets_velocity_cache [of ?js "[iss]" catalog "''2024-01-01T12:00:00.000Z''"]
      init tick
    by (intro conjI)
qed


section \<open>Properties of the element parser\<close>

lemma parseTLE_fields:
  "satelliteNumber (parseTLE l1 l2) = parseInt (trim (substring 2 7 l1))"
  "classification (parseTLE l1 l2) = charAt 7 l1"
  "internationalDesignator (parseTLE l1 l2) = trim (substring 9 17 l1)"
  "epochDay (parseTLE l1 l2) = parseFloat (trim (substring 20 32 l1))"
  "meanMotionDot (parseTLE l1 l2) = parseFloat (trim (substring 33 43 l1))"
  "inclination (parseTLE l1 l2) = parseFloat (trim (substring 8 16 l2))"
  "raan (parseTLE l1 l2) = parseFloat (trim (substring 17 25 l2))"
  "eccentricity (parseTLE l1 l2) = parseFloat (''0.'' @ trim (substring 26 33 l2))"
  "argOfPerigee (parseTLE l1 l2) = parseFloat (trim (substring 34 42 l2))"
  "meanAnomaly (parseTLE l1 l2) = parseFloat (trim (substring 43 51 l2))"
  "meanMotion (parseTLE l1 l2) = parseFloat (trim (substring 52 63 l2))"
  by (simp_all add: parseTLE_def Let_def)

lemma parseTLE_epochYear:
  "epochYear (parseTLE l1 l2) =
     (if num_ge (parseInt (trim (substring 18 20 l1))) (Num 57)
      then num_add (Num 1900) (parseInt (trim (substring 18 20 l1)))
      else num_add (Num 2000) (parseInt (trim (substring 18 20 l1))))"
  by (simp add: parseTLE_def Let_def)

lemma parseTLE_derived:
  "period (parseTLE l1 l2) = num_div (Num 1440) (meanMotion (parseTLE l1 l2))"
  "semiMajorAxis (parseTLE l1 l2) =
     Math_pow (num_mul MU_EARTH
        (Math_pow (num_div (num_mul (period (parseTLE l1 l2)) (Num 60)) (num_mul (Num 2) (Num pi)))
           (Num 2)))
       (num_div (Num 1) (Num 3))"
  "apogee (parseTLE l1 l2) =
     num_sub (num_mul (semiMajorAxis (parseTLE l1 l2)) (num_add (Num 1) (eccentricity (parseTLE l1 l2))))
       EARTH_RADIUS_KM"
  "perigee (parseTLE l1 l2) =
     num_sub (num_mul (semiMajorAxis (parseTLE l1 l2)) (num_sub (Num 1) (eccentricity (parseTLE l1 l2))))
       EARTH_RADIUS_KM"
  "OrbitalElements.velocity (parseTLE l1 l2) =
     Math_sqrt (num_div MU_EARTH (semiMajorAxis (parseTLE l1 l2)))"
  "orbitType (parseTLE l1 l2) =
     classifyOrbit (perigee (parseTLE l1 l2)) (eccentricity (parseTLE l1 l2))"
  by (simp_all add: parseTLE_def Let_def)

text \<open>Claim C5: the orbit type is one of four labels, decided by the ladder: perigee below
  2000 with eccentricity above 0.25 is HEO, perigee below 2000 otherwise is LEO, perigee
  from 2000 to below 35000 is MEO, anything else (also a \<open>NaN\<close> perigee) is GEO. The four
  conditions exclude one another and cover every pair; \<open>parseTLE\<close> applies the ladder to
  the perigee and eccentricity it returns.\<close>

theorem classifyOrbit_ladder:
  "(classifyOrbit p e = ''HEO'') = (num_lt p (Num 2000) \<and> num_gt e (Num 0.25)) \<and>
   (classifyOrbit p e = ''LEO'') = (num_lt p (Num 2000) \<and> \<not> num_gt e (Num 0.25)) \<and>
   (classifyOrbit p e = ''MEO'') = (\<not> num_lt p (Num 2000) \<and> num_lt p (Num 35000)) \<and>
   (classifyOrbit p e = ''GEO'') = (\<not> num_lt p (Num 2000) \<and> \<not> num_lt p (Num 35000)) \<and>
   classifyOrbit p e \<in> {''HEO'', ''LEO'', ''MEO'', ''GEO''} \<and>
   orbitType (parseTLE l1 l2) =
     classifyOrbit (perigee (parseTLE l1 l2)) (eccentricity (parseTLE l1 l2))"
  by (cases p) (auto simp: classifyOrbit_def parseTLE_derived)

lemma semiMajorAxis_positive:
  assumes "meanMotion (parseTLE l1 l2) = Num n" and "0 < n"
  shows "period (parseTLE l1 l2) = Num (1440 / n) \<and>
         semiMajorAxis (parseTLE l1 l2) =
           Num ((398600.4418 * (1440 / n * 60 / (2 * pi))\<^sup>2) powr (1 / 3))"
  using assms
  by (simp add: parseTLE_derived Math_pow_def MU_EARTH_def)

lemma digit_not_special:
  assumes "isDigit c"
  shows "\<not> isWhiteSpace c" "c \<noteq> CHR ''-''" "c \<noteq> CHR ''+''" "c \<noteq> CHR ''x''" "c \<noteq> CHR ''X''"
    "c \<noteq> CHR ''.''" "c \<noteq> CHR ''I''"
  using assms by (auto simp: isDigit_def isWhiteSpace_def)

lemma trim_no_space:
  assumes "\<forall>c\<in>set s. \<not> isWhiteSpace c"
  shows "trim s = s"
proof -
  have keep: "dropWhile isWhiteSpace xs = xs" if "\<forall>c\<in>set xs. \<not> isWhiteSpace c" for xs
    using that by (cases xs) auto
  have "dropWhile isWhiteSpace s = s"
    using assms by (rule keep)
  moreover have "dropWhile isWhiteSpace (rev s) = rev s"
    using assms by (intro keep) simp
  ultimately show ?thesis by (simp add: trim_def)
qed

lemma parseInt_two_digits:
  assumes "isDigit a" and "isDigit b"
  shows "parseInt [a, b] = Num (real (10 * digitValue a + digitValue b))"
  using assms digit_not_special [OF assms(1)] digit_not_special [OF assms(2)]
  by (simp add: parseInt_def Let_def decimalValue_def)

lemma epoch_year_of_digits:
  assumes "length pre = 18" and "isDigit a" and "isDigit b"
  shows "epochYear (parseTLE (pre @ a # b # post) l2) =
     Num (real (if 57 \<le> 10 * digitValue a + digitValue b
                then 1900 + (10 * digitValue a + digitValue b)
                else 2000 + (10 * digitValue a + digitValue b)))"
proof -
  have sub: "substring 18 20 (pre @ a # b # post) = [a, b]"
    using assms(1) by (simp add: substring_def)
  have tr: "trim [a, b] = [a, b]"
    using assms by (intro trim_no_space) (auto simp: digit_not_special)
  show ?thesis
    by (simp add: parseTLE_epochYear sub tr parseInt_two_digits [OF assms(2,3)])
qed

lemma digit_values:
  "isDigit CHR ''0''" "isDigit CHR ''1''" "isDigit CHR ''2''" "isDigit CHR ''3''"
  "isDigit CHR ''4''" "isDigit CHR ''5''" "isDigit CHR ''6''" "isDigit CHR ''7''"
  "isDigit CHR ''8''" "isDigit CHR ''9''"
  "digitValue CHR ''0'' = 0" "digitValue CHR ''1'' = 1" "digitValue CHR ''2'' = 2"
  "digitValue CHR ''3'' = 3" "digitValue CHR ''4'' = 4" "digitValue CHR ''5'' = 5"
  "digitValue CHR ''6'' = 6" "digitValue CHR ''7'' = 7" "digitValue CHR ''8'' = 8"
  "digitValue CHR ''9'' = 9" "\<not> isDigit CHR ''.''"
  by (simp_all add: isDigit_def digitValue_def)

text \<open>Claim C7: a two-digit epoch-year field \<open>ab\<close> at columns 19 and 20 of line 1 gives the
  year 1900 + ab when ab is at least 57 and 2000 + ab otherwise; 98 gives 1998, 24 gives
  2024, 57 gives 1957 and 56 gives 2056.\<close>

theorem epoch_year_rollover:
  assumes "length pre = 18" and "isDigit a" and "isDigit b"
  shows "epochYear (parseTLE (pre @ a # b # post) l2) =
       Num (real (if 57 \<le> 10 * digitValue a + digitValue b
                  then 1900 + (10 * digitValue a + digitValue b)
                  else 2000 + (10 * digitValue a + digitValue b))) \<and>
     epochYear (parseTLE (pre @ ''98'' @ post) l2) = Num 1998 \<and>
     epochYear (parseTLE (pre @ ''24'' @ post) l2) = Num 2024 \<and>
     epochYear (parseTLE (pre @ ''57'' @ post) l2) = Num 1957 \<and>
     epochYear (parseTLE (pre @ ''56'' @ post) l2) = Num 2056"
  using epoch_year_of_digits [OF assms, of post l2]
    epoch_year_of_digits [OF assms(1), of "CHR ''9''" "CHR ''8''" post l2]
    epoch_year_of_digits [OF assms(1), of "CHR ''2''" "CHR ''4''" post l2]
    epoch_year_of_digits [OF assms(1), of "CHR ''5''" "CHR ''7''" post l2]
    epoch_year_of_digits [OF assms(1), of "CHR ''5''" "CHR ''6''" post l2]
  by (simp add: digit_values)

text \<open>The theorem at an element set of the ISS with epoch year field 24.\<close>

theorem epoch_year_rollover_witness:
  "epochYear (parseTLE iss_line1 iss_line2) = Num 2024"
  using epoch_year_rollover [of "''1 25544U 98067A   ''" "CHR ''2''" "CHR ''4''"
      "''001.50000000  .00016717  00000-0  10270-3 0  9005''" iss_line2]
  by (simp add: iss_line1_def digit_values)

lemma parseFloat_fraction:
  assumes "\<forall>c\<in>set ds. isDigit c"
  shows "parseFloat (''0.'' @ ds) = Num (real (decimalValue ds) / 10 ^ length ds)"
proof -
  have tw: "takeWhile isDigit ds = ds" and dw: "dropWhile isDigit ds = []"
    using assms by simp_all
  show ?thesis
    by (simp add: parseFloat_def Let_def isWhiteSpace_def digit_values tw dw exponentPart_def
        decimalValue_def)
qed

lemma eccentricity_of_digits:
  assumes "length pre = 26" and "length ds = 7" and "\<forall>c\<in>set ds. isDigit c"
  shows "eccentricity (parseTLE l1 (pre @ ds @ post)) = Num (real (decimalValue ds) / 10 ^ 7)"
proof -
  have sub: "substring 26 33 (pre @ ds @ post) = ds"
    using assms(1,2) by (simp add: substring_def)
  have tr: "trim ds = ds"
    using assms(3) by (intro trim_no_space) (auto simp: digit_not_special)
  show ?thesis
    using parseFloat_fraction [OF assms(3)] assms(2)
    by (simp add: parseTLE_fields sub tr)
qed

text \<open>Claim C8: the eccentricity is read from columns 27 to 33 of line 2 behind a prepended
  \<open>0.\<close>; a field of seven digits gives their value divided by 10 to the 7th, and the
  field 1234567 gives 0.1234567.\<close>

theorem eccentricity_implied_decimal:
  assumes "length pre = 26" and "length ds = 7" and "\<forall>c\<in>set ds. isDigit c"
  shows "eccentricity (parseTLE l1 (pre @ ds @ post)) =
       parseFloat (''0.'' @ trim (substring 26 33 (pre @ ds @ post))) \<and>
     eccentricity (parseTLE l1 (pre @ ds @ post)) = Num (real (decimalValue ds) / 10 ^ 7) \<and>
     eccentricity (parseTLE l1 (pre @ ''1234567'' @ post)) = Num 0.1234567"
  using eccentricity_of_digits [OF assms, of l1 post]
    eccentricity_of_digits [OF assms(1), of "''1234567''" l1 post]
  by (simp add: parseTLE_fields digit_values decimalValue_def)

text \<open>The theorem at an element set of the ISS with eccentricity field 0006703.\<close>

theorem eccentricity_implied_decimal_witness:
  "eccentricity (parseTLE iss_line1 iss_line2) = Num 0.0006703"
proof -
  have digits: "\<forall>c\<in>set ''0006703''. isDigit c"
    by (simp add: digit_values)
  have before: "length ''2 25544  51.6400 208.9163 '' = 26" and field: "length ''0006703'' = 7"
    by simp_all
  have "eccentricity (parseTLE iss_line1
      (''2 25544  51.6400 208.9163 '' @ ''0006703'' @ ''  69.9862  25.2906 15.49560532    17'')) =
      Num (real (decimalValue ''0006703'') / 10 ^ 7)"
    using eccentricity_implied_decimal [OF before field digits] by blast
  then show ?thesis
    by (simp add: iss_line2_def digit_values decimalValue_def)
qed

lemma cube_root_less:
  assumes "0 \<le> x" and "0 < b" and "x < b ^ 3"
  shows "x powr (1 / 3) < (b::real)"
proof -
  have "x powr (1 / 3) < (b ^ 3) powr (1 / 3)"
    using assms by (intro powr_less_mono2) simp_all
  also have "b ^ 3 = b powr 3"
    using assms(2) by simp
  also have "(b powr 3) powr (1 / 3) = b powr 1"
    by (simp add: powr_powr)
  also have "b powr 1 = b"
    using assms(2) by simp
  finally show ?thesis .
qed

lemma positive_mean_motion:
  assumes "num_gt m (Num 0)"
  shows "(\<exists>n. m = Num n \<and> 0 < n) \<or> m = PosInfinity"
  using assms by (cases m) (auto simp: num_gt_def)

lemma endless_orbit:
  assumes "meanMotion (parseTLE l1 l2) = PosInfinity"
  shows "period (parseTLE l1 l2) = Num 0" and "semiMajorAxis (parseTLE l1 l2) = Num 0"
proof -
  show per: "period (parseTLE l1 l2) = Num 0"
    by (simp add: parseTLE_derived(1) assms)
  show "semiMajorAxis (parseTLE l1 l2) = Num 0"
    by (simp add: parseTLE_derived(2) per Math_pow_def MU_EARTH_def)
qed

text \<open>Claim C3, as the parser computes it: when the parsed eccentricity is in [0, 1) and the
  parsed mean motion is greater than 0, apogee is at least perigee, perigee is at least
  -6378.137 and the period is at least 0; the perigee is non-negative exactly when the
  semi-major axis times (1 - e) is at least 6378.137. A finite mean motion n gives the
  period 1440 / n > 0; an infinite one gives period 0 and apogee = perigee = -6378.137.\<close>

theorem derived_orbit_bounds:
  assumes "eccentricity (parseTLE l1 l2) = Num e" and "0 \<le> e" and "e < 1"
    and "num_gt (meanMotion (parseTLE l1 l2)) (Num 0)"
  shows "num_ge (apogee (parseTLE l1 l2)) (perigee (parseTLE l1 l2)) \<and>
     num_ge (perigee (parseTLE l1 l2)) (Num (- 6378.137)) \<and>
     num_ge (period (parseTLE l1 l2)) (Num 0) \<and>
     num_ge (perigee (parseTLE l1 l2)) (Num 0) =
       num_ge (num_mul (semiMajorAxis (parseTLE l1 l2)) (Num (1 - e))) (Num 6378.137) \<and>
     (\<forall>n. meanMotion (parseTLE l1 l2) = Num n \<longrightarrow>
        period (parseTLE l1 l2) = Num (1440 / n) \<and> num_gt (period (parseTLE l1 l2)) (Num 0)) \<and>
     (meanMotion (parseTLE l1 l2) = PosInfinity \<longrightarrow>
        period (parseTLE l1 l2) = Num 0 \<and>
        apogee (parseTLE l1 l2) = Num (- 6378.137) \<and>
        perigee (parseTLE l1 l2) = Num (- 6378.137))"
proof -
  from positive_mean_motion [OF assms(4)]
  consider n where "meanMotion (parseTLE l1 l2) = Num n" and "0 < n"
    | "meanMotion (parseTLE l1 l2) = PosInfinity"
    by blast
  then show ?thesis
  proof cases
    case 1
    define a where "a = (398600.4418 * (1440 / n * 60 / (2 * pi))\<^sup>2) powr (1 / 3)"
    have per: "period (parseTLE l1 l2) = Num (1440 / n)"
      and sma: "semiMajorAxis (parseTLE l1 l2) = Num a"
      using semiMajorAxis_positive [OF 1] by (simp_all add: a_def)
    have pos: "0 < a"
      using 1(2) by (simp add: a_def)
    have apo: "apogee (parseTLE l1 l2) = Num (a * (1 + e) - 6378.137)"
      and peri: "perigee (parseTLE l1 l2) = Num (a * (1 - e) - 6378.137)"
      by (simp_all add: parseTLE_derived(3,4) sma assms(1) num_sub_def EARTH_RADIUS_KM_def)
    have "a * (1 - e) \<le> a * (1 + e)"
      using pos assms(2) by (intro mult_left_mono) simp_all
    moreover have "0 < a * (1 - e)"
      using pos assms(3) by simp
    ultimately show ?thesis
      using 1 pos by (auto simp: per sma apo peri num_gt_def)
  next
    case 2
    have per: "period (parseTLE l1 l2) = Num 0"
      and sma: "semiMajorAxis (parseTLE l1 l2) = Num 0"
      using endless_orbit [OF 2] by simp_all
    have apo: "apogee (parseTLE l1 l2) = Num (- 6378.137)"
      and peri: "perigee (parseTLE l1 l2) = Num (- 6378.137)"
      by (simp_all add: parseTLE_derived(3,4) sma assms(1) num_sub_def EARTH_RADIUS_KM_def)
    show ?thesis
      using 2 by (simp add: per sma apo peri)
  qed
qed

lemma iss_parsed:
  "eccentricity (parseTLE l1 iss_line2) = Num 0.0006703"
  "meanMotion (parseTLE l1 iss_line2) = Num 15.49560532"
  "eccentricity (parseTLE l1 sunk_line2) = Num 0.7"
  "meanMotion (parseTLE l1 sunk_line2) = Num 15.49560532"
  "eccentricity (parseTLE l1 endless_line2) = Num 0.0006703"
  "meanMotion (parseTLE l1 endless_line2) = PosInfinity"
  by (simp_all add: parseTLE_fields iss_line2_def sunk_line2_def endless_line2_def substring_def
      trim_def parseFloat_def exponentPart_def Let_def decimalValue_def digit_values
      isWhiteSpace_def isDigit_def)

text \<open>The theorem at an element set of the ISS, and at the same set with the mean-motion field
  Infinity.\<close>

theorem derived_orbit_bounds_witness:
  "eccentricity (parseTLE iss_line1 iss_line2) = Num 0.0006703 \<and>
   meanMotion (parseTLE iss_line1 iss_line2) = Num 15.49560532 \<and>
   period (parseTLE iss_line1 iss_line2) = Num (1440 / 15.49560532) \<and>
   num_gt (period (parseTLE iss_line1 iss_line2)) (Num 0) \<and>
   num_ge (apogee (parseTLE iss_line1 iss_line2)) (perigee (parseTLE iss_line1 iss_line2)) \<and>
   num_ge (perigee (parseTLE iss_line1 iss_line2)) (Num (- 6378.137)) \<and>
   meanMotion (parseTLE iss_line1 endless_line2) = PosInfinity \<and>
   period (parseTLE iss_line1 endless_line2) = Num 0 \<and>
   perigee (parseTLE iss_line1 endless_line2) = Num (- 6378.137)"
proof -
  have finite: "num_gt (meanMotion (parseTLE iss_line1 iss_line2)) (Num 0)"
    and endless: "num_gt (meanMotion (parseTLE iss_line1 endless_line2)) (Num 0)"
    by (simp_all add: iss_parsed num_gt_def)
  have e: "(0::real) \<le> 0.0006703" "(0.0006703::real) < 1"
    by simp_all
  have "period (parseTLE iss_line1 iss_line2) = Num (1440 / 15.49560532) \<and>
      num_gt (period (parseTLE iss_line1 iss_line2)) (Num 0) \<and>
      num_ge (apogee (parseTLE iss_line1 iss_line2)) (perigee (parseTLE iss_line1 iss_line2)) \<and>
      num_ge (perigee (parseTLE iss_line1 iss_line2)) (Num (- 6378.137))"
    using derived_orbit_bounds [OF iss_parsed(1) e finite] iss_parsed(2) by blast
  moreover have "period (parseTLE iss_line1 endless_line2) = Num 0 \<and>
      perigee (parseTLE iss_line1 endless_line2) = Num (- 6378.137)"
    using derived_orbit_bounds [OF iss_parsed(5) e endless] iss_parsed(6) by blast
  ultimately show ?thesis
    using iss_parsed(1,2,6) by blast
qed

text \<open>Claim C3 as stated fails twice. With eccentricity 0.7 and 15.49560532 revolutions a day
  the element set satisfies the invariant and the perigee is negative; with the mean-motion
  field Infinity the mean motion is greater than 0 and the period is 0, not greater.\<close>

theorem negative_perigee_counterexample:
  "eccentricity (parseTLE iss_line1 sunk_line2) = Num 0.7 \<and>
   meanMotion (parseTLE iss_line1 sunk_line2) = Num 15.49560532 \<and>
   num_lt (perigee (parseTLE iss_line1 sunk_line2)) (Num 0) \<and>
   eccentricity (parseTLE iss_line1 endless_line2) = Num 0.0006703 \<and>
   num_gt (meanMotion (parseTLE iss_line1 endless_line2)) (Num 0) \<and>
   period (parseTLE iss_line1 endless_line2) = Num 0 \<and>
   \<not> num_gt (period (parseTLE iss_line1 endless_line2)) (Num 0)"
proof -
  define x :: real where "x = 1440 / 15.49560532 * 60"
  define a where "a = (398600.4418 * (x / (2 * pi))\<^sup>2) powr (1 / 3)"
  have sma: "semiMajorAxis (parseTLE iss_line1 sunk_line2) = Num a"
    using semiMajorAxis_positive [OF iss_parsed(4)] by (simp add: a_def x_def)
  have x: "0 < x" "x < 5600"
    by (simp_all add: x_def)
  have "x / (2 * pi) \<le> x / 4"
    using x(1) pi_ge_two by (intro divide_left_mono) simp_all
  moreover have "0 \<le> x / (2 * pi)"
    using x(1) by simp
  ultimately have "(x / (2 * pi))\<^sup>2 \<le> (x / 4)\<^sup>2"
    by (intro power_mono)
  also have "(x / 4)\<^sup>2 < 1400\<^sup>2"
    using x by (intro power_strict_mono) simp_all
  finally have "398600.4418 * (x / (2 * pi))\<^sup>2 < 398600.4418 * 1400\<^sup>2"
    by simp
  also have "\<dots> < (21000::real) ^ 3"
    by simp
  finally have "a < 21000"
    unfolding a_def by (intro cube_root_less) simp_all
  then have "a * (1 - 0.7) - 6378.137 < 0"
    by simp
  then have low: "num_lt (perigee (parseTLE iss_line1 sunk_line2)) (Num 0)"
    by (simp add: parseTLE_derived(4) sma iss_parsed(3) num_sub_def EARTH_RADIUS_KM_def)
  have per: "period (parseTLE iss_line1 endless_line2) = Num 0"
    by (simp add: parseTLE_derived(1) iss_parsed(6))
  show ?thesis
    using low by (simp add: iss_parsed per num_gt_def)
qed

lemma parseFloat_empty: "parseFloat [] = NaN"
  by (simp add: parseFloat_def exponentPart_def)

lemma parseInt_empty: "parseInt [] = NaN"
  by (simp add: parseInt_def)

lemma trim_empty: "trim [] = []"
  by (simp add: trim_def)

lemma substring_beyond: "length s \<le> a \<Longrightarrow> a \<le> b \<Longrightarrow> substring a b s = []"
  by (simp add: substring_def min_def)

lemma parseTLE_line1_fields:
  "epochDate (parseTLE l1 l2) =
     TimeClip (num_add (TimeClip (Date_UTC_Jan1 (epochYear (parseTLE l1 l2))))
       (num_mul (num_sub (epochDay (parseTLE l1 l2)) (Num 1)) (Num 86400000)))"
  "bstar (parseTLE l1 l2) =
     num_mul
       (parseFloat (replaceFirst CHR '' '' CHR ''+''
          (take (length (trim (substring 53 61 l1)) - 2) (trim (substring 53 61 l1)))))
       (Math_pow (Num 10)
          (parseInt (drop (length (trim (substring 53 61 l1)) - 2) (trim (substring 53 61 l1)))))"
  "revNumber (parseTLE l1 l2) =
     (if isNaN (parseInt (trim (substring 63 68 l2))) \<or> parseInt (trim (substring 63 68 l2)) = Num 0
      then Num 0 else parseInt (trim (substring 63 68 l2)))"
  by (simp_all add: parseTLE_def Let_def)

lemma short_line2:
  assumes "length l2 \<le> 52"
  shows "meanMotion (parseTLE l1 l2) = NaN"
    and "period (parseTLE l1 l2) = NaN"
    and "semiMajorAxis (parseTLE l1 l2) = NaN"
    and "apogee (parseTLE l1 l2) = NaN"
    and "perigee (parseTLE l1 l2) = NaN"
    and "OrbitalElements.velocity (parseTLE l1 l2) = NaN"
    and "orbitType (parseTLE l1 l2) = ''GEO''"
proof -
  show mm: "meanMotion (parseTLE l1 l2) = NaN"
    using assms by (simp add: parseTLE_fields substring_beyond trim_empty parseFloat_empty)
  show per: "period (parseTLE l1 l2) = NaN"
    by (simp add: parseTLE_derived(1) mm)
  show sma: "semiMajorAxis (parseTLE l1 l2) = NaN"
    by (simp add: parseTLE_derived(2) per Math_pow_def MU_EARTH_def)
  show "apogee (parseTLE l1 l2) = NaN"
    by (simp add: parseTLE_derived(3) sma num_sub_def)
  show peri: "perigee (parseTLE l1 l2) = NaN"
    by (simp add: parseTLE_derived(4) sma num_sub_def)
  show "OrbitalElements.velocity (parseTLE l1 l2) = NaN"
    by (simp add: parseTLE_derived(5) sma MU_EARTH_def)
  show "orbitType (parseTLE l1 l2) = ''GEO''"
    by (simp add: parseTLE_derived(6) peri classifyOrbit_def)
qed

lemma short_line1:
  assumes "length l1 \<le> 18"
  shows "epochYear (parseTLE l1 l2) = NaN"
    and "epochDay (parseTLE l1 l2) = NaN"
    and "epochDate (parseTLE l1 l2) = NaN"
    and "meanMotionDot (parseTLE l1 l2) = NaN"
    and "bstar (parseTLE l1 l2) = NaN"
proof -
  show yr: "epochYear (parseTLE l1 l2) = NaN"
    using assms by (simp add: parseTLE_epochYear substring_beyond trim_empty parseInt_empty)
  show "epochDay (parseTLE l1 l2) = NaN"
    using assms by (simp add: parseTLE_fields substring_beyond trim_empty parseFloat_empty)
  show "epochDate (parseTLE l1 l2) = NaN"
    by (simp add: parseTLE_line1_fields(1) yr Date_UTC_Jan1_def TimeClip_def)
  show "meanMotionDot (parseTLE l1 l2) = NaN"
    using assms by (simp add: parseTLE_fields substring_beyond trim_empty parseFloat_empty)
  show "bstar (parseTLE l1 l2) = NaN"
    using assms
    by (simp add: parseTLE_line1_fields(2) substring_beyond trim_empty parseFloat_empty)
qed

lemma initLoop_append: "initLoop js (xs @ ys) = initLoop js xs @ initLoop js ys"
  by (induction xs) (auto split: outcome.splits)

lemma trim_subset: "set (trim s) \<subseteq> set s"
proof -
  have less: "set (dropWhile isWhiteSpace xs) \<subseteq> set xs" for xs
    by (auto dest: set_dropWhileD)
  have "set (dropWhile isWhiteSpace (rev (dropWhile isWhiteSpace s))) \<subseteq>
      set (rev (dropWhile isWhiteSpace s))"
    by (rule less)
  also have "\<dots> \<subseteq> set s"
    using less [of s] by simp
  finally show ?thesis by (simp add: trim_def)
qed

lemma parseFloat_no_digit:
  assumes "\<forall>c\<in>set s. \<not> isDigit c \<and> c \<noteq> CHR ''I''"
  shows "parseFloat s = NaN"
proof -
  define S where "S = dropWhile isWhiteSpace s"
  define S1 where "S1 = (if take 1 S = ''-'' \<or> take 1 S = ''+'' then drop 1 S else S)"
  have S: "set S \<subseteq> set s"
    using set_dropWhileD [of _ isWhiteSpace s] by (auto simp: S_def)
  have "set S1 \<subseteq> set S"
    using set_drop_subset [of 1 S] by (auto simp: S1_def)
  with S have S1: "\<forall>c\<in>set S1. \<not> isDigit c \<and> c \<noteq> CHR ''I''"
    using assms by blast
  have none: "takeWhile isDigit xs = []" if "\<forall>c\<in>set xs. \<not> isDigit c" for xs
    using that by (cases xs) auto
  have keep: "dropWhile isDigit xs = xs" if "\<forall>c\<in>set xs. \<not> isDigit c" for xs
    using that by (cases xs) auto
  have int: "takeWhile isDigit S1 = []" and rest: "dropWhile isDigit S1 = S1"
    using S1 by (simp_all add: none keep)
  have frac: "takeWhile isDigit (drop n S1) = []" for n
    using S1 set_drop_subset [of n S1] by (intro none) blast
  have inf: "take 8 S1 \<noteq> ''Infinity''"
  proof
    assume "take 8 S1 = ''Infinity''"
    then have "CHR ''I'' \<in> set (take 8 S1)" by simp
    then have "CHR ''I'' \<in> set S1" by (rule in_set_takeD)
    with S1 show False by blast
  qed
  show ?thesis
    unfolding parseFloat_def Let_def S_def [symmetric] S1_def [symmetric]
    by (simp add: int rest frac inf)
qed

lemma unread_mean_motion:
  assumes "\<forall>c\<in>set (substring 52 63 l2). \<not> isDigit c \<and> c \<noteq> CHR ''I''"
  shows "meanMotion (parseTLE l1 l2) = NaN"
    and "period (parseTLE l1 l2) = NaN"
    and "semiMajorAxis (parseTLE l1 l2) = NaN"
    and "apogee (parseTLE l1 l2) = NaN"
    and "perigee (parseTLE l1 l2) = NaN"
    and "OrbitalElements.velocity (parseTLE l1 l2) = NaN"
    and "orbitType (parseTLE l1 l2) = ''GEO''"
proof -
  have "\<forall>c\<in>set (trim (substring 52 63 l2)). \<not> isDigit c \<and> c \<noteq> CHR ''I''"
    using assms trim_subset [of "substring 52 63 l2"] by blast
  then show mm: "meanMotion (parseTLE l1 l2) = NaN"
    by (simp add: parseTLE_fields parseFloat_no_digit)
  show per: "period (parseTLE l1 l2) = NaN"
    by (simp add: parseTLE_derived(1) mm)
  show sma: "semiMajorAxis (parseTLE l1 l2) = NaN"
    by (simp add: parseTLE_derived(2) per Math_pow_def MU_EARTH_def)
  show "apogee (parseTLE l1 l2) = NaN"
    by (simp add: parseTLE_derived(3) sma num_sub_def)
  show peri: "perigee (parseTLE l1 l2) = NaN"
    by (simp add: parseTLE_derived(4) sma num_sub_def)
  show "OrbitalElements.velocity (parseTLE l1 l2) = NaN"
    by (simp add: parseTLE_derived(5) sma MU_EARTH_def)
  show "orbitType (parseTLE l1 l2) = ''GEO''"
    by (simp add: parseTLE_derived(6) peri classifyOrbit_def)
qed

lemma short_line2_zero:
  "length l2 \<le> 26 \<Longrightarrow> eccentricity (parseTLE l1 l2) = Num 0"
  "length l2 \<le> 63 \<Longrightarrow> revNumber (parseTLE l1 l2) = Num 0"
  by (simp_all add: parseTLE_fields parseTLE_line1_fields(3) substring_beyond trim_empty
      parseInt_empty parseFloat_def exponentPart_def Let_def decimalValue_def digit_values
      isWhiteSpace_def)

lemma initLoop_each:
  "initLoop js tles =
     concat (map (\<lambda>tle.
       case twoline2satrec js (line1 tle) (line2 tle) of
         Throws \<Rightarrow> []
       | Returns rec \<Rightarrow>
           [\<lparr> SatRecord.norad_id = TLEInput.norad_id tle,
              SatRecord.name = TLEInput.name tle,
              SatRecord.object_type =
                (case TLEInput.object_type tle of
                   None \<Rightarrow> ''UNKNOWN''
                 | Some t \<Rightarrow> if t = [] then ''UNKNOWN'' else t),
              satrec = rec,
              SatRecord.prevVelocity = None \<rparr>]) tles)"
  by (induction tles) (auto split: outcome.splits)

text \<open>Claim C1, as the code does it: \<open>parseTLE\<close> checks no length, checksum or number. Every
  call on two strings returns a record, so the \<open>catch\<close> of its caller never runs. A line 1
  of at most 18 characters gives \<open>NaN\<close> for the epoch year, day and date, the mean-motion
  derivative and the drag term. Mean-motion columns without a digit and without the letter
  I, in particular a line 2 of at most 52 characters, give \<open>NaN\<close> for the mean motion,
  period, semi-major axis, apogee, perigee and velocity, and the orbit type GEO. A line 2
  of at most 26 characters gives eccentricity 0, one of at most 63 characters revolution
  number 0. In the worker, \<open>initTLEs\<close> handles every element set on its own: one for which
  \<open>twoline2satrec\<close> throws is left out and the others are tracked.\<close>

theorem parseTLE_never_rejects:
  "call_parseTLE l1 l2 = Returns (parseTLE l1 l2) \<and>
   parseDetail (Some (l1, l2)) elems = (Some (parseTLE l1 l2), []) \<and>
   (length l1 \<le> 18 \<longrightarrow>
      epochYear (parseTLE l1 l2) = NaN \<and> epochDay (parseTLE l1 l2) = NaN \<and>
      epochDate (parseTLE l1 l2) = NaN \<and> meanMotionDot (parseTLE l1 l2) = NaN \<and>
      bstar (parseTLE l1 l2) = NaN) \<and>
   ((\<forall>c\<in>set (substring 52 63 l2). \<not> isDigit c \<and> c \<noteq> CHR ''I'') \<longrightarrow>
      meanMotion (parseTLE l1 l2) = NaN \<and> period (parseTLE l1 l2) = NaN \<and>
      semiMajorAxis (parseTLE l1 l2) = NaN \<and> apogee (parseTLE l1 l2) = NaN \<and>
      perigee (parseTLE l1 l2) = NaN \<and> OrbitalElements.velocity (parseTLE l1 l2) = NaN \<and>
      orbitType (parseTLE l1 l2) = ''GEO'') \<and>
   (length l2 \<le> 52 \<longrightarrow>
      meanMotion (parseTLE l1 l2) = NaN \<and> period (parseTLE l1 l2) = NaN \<and>
      semiMajorAxis (parseTLE l1 l2) = NaN \<and> apogee (parseTLE l1 l2) = NaN \<and>
      perigee (parseTLE l1 l2) = NaN \<and> OrbitalElements.velocity (parseTLE l1 l2) = NaN \<and>
      orbitType (parseTLE l1 l2) = ''GEO'') \<and>
   (length l2 \<le> 26 \<longrightarrow> eccentricity (parseTLE l1 l2) = Num 0) \<and>
   (length l2 \<le> 63 \<longrightarrow> revNumber (parseTLE l1 l2) = Num 0) \<and>
   initLoop js tles =
     concat (map (\<lambda>tle.
       case twoline2satrec js (line1 tle) (line2 tle) of
         Throws \<Rightarrow> []
       | Returns rec \<Rightarrow>
           [\<lparr> SatRecord.norad_id = TLEInput.norad_id tle,
              SatRecord.name = TLEInput.name tle,
              SatRecord.object_type =
                (case TLEInput.object_type tle of
                   None \<Rightarrow> ''UNKNOWN''
                 | Some t \<Rightarrow> if t = [] then ''UNKNOWN'' else t),
              satrec = rec,
              SatRecord.prevVelocity = None \<rparr>]) tles)"
  using initLoop_each [of js tles]
  by (simp add: call_parseTLE_def parseDetail_def short_line1 short_line2 short_line2_zero
      unread_mean_motion)

text \<open>The theorem at two truncated lines, at a line 2 whose mean-motion columns hold letters,
  and at the catalog of two element sets.\<close>

theorem parseTLE_never_rejects_witness:
  "parseDetail (Some (''1 25544U'', ''2 25544'')) None =
     (Some (parseTLE ''1 25544U'' ''2 25544''), []) \<and>
   satelliteNumber (parseTLE ''1 25544U'' ''2 25544'') = Num 25544 \<and>
   epochYear (parseTLE ''1 25544U'' ''2 25544'') = NaN \<and>
   meanMotion (parseTLE ''1 25544U'' ''2 25544'') = NaN \<and>
   perigee (parseTLE ''1 25544U'' ''2 25544'') = NaN \<and>
   orbitType (parseTLE ''1 25544U'' ''2 25544'') = ''GEO'' \<and>
   eccentricity (parseTLE ''1 25544U'' ''2 25544'') = Num 0 \<and>
   revNumber (parseTLE ''1 25544U'' ''2 25544'') = Num 0 \<and>
   meanMotion (parseTLE iss_line1 garbled_line2) = NaN \<and>
   orbitType (parseTLE iss_line1 garbled_line2) = ''GEO'' \<and>
   initLoop (fixed_js (moving 7.56) (geodetic_at 20 10 (Num 400))) catalog =
     [iss\<lparr> SatRecord.prevVelocity := None \<rparr>,
      \<lparr> SatRecord.norad_id = 99999, SatRecord.name = ''BROKEN'',
        SatRecord.object_type = ''UNKNOWN'', satrec = (),
        SatRecord.prevVelocity = None \<rparr>]"
proof -
  have sat: "satelliteNumber (parseTLE ''1 25544U'' ''2 25544'') = Num 25544"
    by (simp add: parseTLE_fields substring_def trim_def parseInt_def Let_def decimalValue_def
        digit_values isWhiteSpace_def isDigit_def)
  have letters: "\<forall>c\<in>set (substring 52 63 garbled_line2). \<not> isDigit c \<and> c \<noteq> CHR ''I''"
    by (simp add: garbled_line2_def substring_def isDigit_def)
  have init: "initLoop (fixed_js (moving w) (geodetic_at 20 10 (Num 400))) catalog =
     [iss\<lparr> SatRecord.prevVelocity := None \<rparr>,
      \<lparr> SatRecord.norad_id = 99999, SatRecord.name = ''BROKEN'',
        SatRecord.object_type = ''UNKNOWN'', satrec = (),
        SatRecord.prevVelocity = None \<rparr>]" for w
    by (simp add: catalog_def fixed_js_def iss_def)
  have short: "length ''1 25544U'' \<le> 18" "length ''2 25544'' \<le> 52"
    "length ''2 25544'' \<le> 26" "length ''2 25544'' \<le> 63"
    by simp_all
  have "parseDetail (Some (''1 25544U'', ''2 25544'')) None =
      (Some (parseTLE ''1 25544U'' ''2 25544''), []) \<and>
    epochYear (parseTLE ''1 25544U'' ''2 25544'') = NaN \<and>
    meanMotion (parseTLE ''1 25544U'' ''2 25544'') = NaN \<and>
    perigee (parseTLE ''1 25544U'' ''2 25544'') = NaN \<and>
    orbitType (parseTLE ''1 25544U'' ''2 25544'') = ''GEO'' \<and>
    eccentricity (parseTLE ''1 25544U'' ''2 25544'') = Num 0 \<and>
    revNumber (parseTLE ''1 25544U'' ''2 25544'') = Num 0"
    using parseTLE_never_rejects [of "''1 25544U''" "''2 25544''" None] short by blast
  moreover have "meanMotion (parseTLE iss_line1 garbled_line2) = NaN \<and>
    orbitType (parseTLE iss_line1 garbled_line2) = ''GEO''"
    using parseTLE_never_rejects [of iss_line1 garbled_line2] letters by blast
  ultimately show ?thesis
    using sat init by blast
qed

text \<open>Claim C1 as stated fails: for two empty lines the call of \<open>parseTLE\<close> returns a record,
  whose numbers are \<open>NaN\<close> but for the eccentricity (\<open>parseFloat('0.')\<close> is 0) and the
  revolution number.\<close>

theorem parseTLE_empty_lines_counterexample:
  "call_parseTLE [] [] = Returns
     \<lparr> satelliteNumber = NaN, classification = [], internationalDesignator = [],
       epochYear = NaN, epochDay = NaN, epochDate = NaN, meanMotionDot = NaN, bstar = NaN,
       inclination = NaN, raan = NaN, eccentricity = Num 0, argOfPerigee = NaN,
       meanAnomaly = NaN, meanMotion = NaN, revNumber = Num 0, period = NaN,
       semiMajorAxis = NaN, apogee = NaN, perigee = NaN, velocity = NaN,
       orbitType = ''GEO'' \<rparr> \<and>
   parseDetail (Some ([], [])) None \<noteq> (None, [''TLE parse error:''])"
proof -
  have "parseTLE [] [] =
     \<lparr> satelliteNumber = NaN, classification = [], internationalDesignator = [],
       epochYear = NaN, epochDay = NaN, epochDate = NaN, meanMotionDot = NaN, bstar = NaN,
       inclination = NaN, raan = NaN, eccentricity = Num 0, argOfPerigee = NaN,
       meanAnomaly = NaN, meanMotion = NaN, revNumber = Num 0, period = NaN,
       semiMajorAxis = NaN, apogee = NaN, perigee = NaN, velocity = NaN,
       orbitType = ''GEO'' \<rparr>"
    by (simp add: parseTLE_def substring_def trim_def charAt_def parseInt_empty parseFloat_empty
        parseFloat_def exponentPart_def decimalValue_def digit_values isWhiteSpace_def
        Date_UTC_Jan1_def TimeClip_def Math_pow_def num_sub_def classifyOrbit_def Let_def
        MU_EARTH_def EARTH_RADIUS_KM_def)
  then show ?thesis
    by (simp add: call_parseTLE_def parseDetail_def)
qed

end
